theory Spec2Isabelle
  imports Complex_Main "HOL-Library.Word"
begin

section \<open>Numeric values of numpy arrays\<close>

text \<open>
  The notebooks compute on numpy arrays of floating-point numbers. An array element is
  modelled as a value of \<open>flt\<close>: a finite number, one of the two infinities, or NaN.
  The sign of zero is not represented. \<open>fadd\<close>, \<open>fsub\<close>, \<open>fmul\<close> and \<open>fdiv\<close> give the
  result of an operation before it is rounded, with the IEEE-754 rules for the special
  values (division by zero gives an infinity or NaN and raises nothing).
\<close>

datatype flt = Fin real | PInf | MInf | NaN

fun fneg :: "flt \<Rightarrow> flt" where
  "fneg (Fin x) = Fin (- x)"
| "fneg PInf = MInf"
| "fneg MInf = PInf"
| "fneg NaN = NaN"

fun fadd :: "flt \<Rightarrow> flt \<Rightarrow> flt" where
  "fadd NaN b = NaN"
| "fadd a NaN = NaN"
| "fadd (Fin x) (Fin y) = Fin (x + y)"
| "fadd PInf MInf = NaN"
| "fadd MInf PInf = NaN"
| "fadd PInf b = PInf"
| "fadd a PInf = PInf"
| "fadd MInf b = MInf"
| "fadd a MInf = MInf"

definition fsub :: "flt \<Rightarrow> flt \<Rightarrow> flt" where
  "fsub a b = fadd a (fneg b)"

fun fmul :: "flt \<Rightarrow> flt \<Rightarrow> flt" where
  "fmul NaN b = NaN"
| "fmul a NaN = NaN"
| "fmul (Fin x) (Fin y) = Fin (x * y)"
| "fmul (Fin x) PInf = (if x = 0 then NaN else if 0 < x then PInf else MInf)"
| "fmul (Fin x) MInf = (if x = 0 then NaN else if 0 < x then MInf else PInf)"
| "fmul PInf (Fin y) = (if y = 0 then NaN else if 0 < y then PInf else MInf)"
| "fmul MInf (Fin y) = (if y = 0 then NaN else if 0 < y then MInf else PInf)"
| "fmul PInf PInf = PInf"
| "fmul MInf MInf = PInf"
| "fmul a b = MInf"

fun fdiv :: "flt \<Rightarrow> flt \<Rightarrow> flt" where
  "fdiv NaN b = NaN"
| "fdiv a NaN = NaN"
| "fdiv (Fin x) (Fin y) =
     (if y = 0 then (if x = 0 then NaN else if 0 < x then PInf else MInf) else Fin (x / y))"
| "fdiv (Fin x) b = Fin 0"
| "fdiv PInf (Fin y) = (if y < 0 then MInf else PInf)"
| "fdiv MInf (Fin y) = (if y < 0 then PInf else MInf)"
| "fdiv a b = NaN"

subsection \<open>Rounding to the dtype of an array\<close>

text \<open>
  The dtypes of the arrays. \<open>float32\<close> has a significand of 24 bits and exponents from
  -126 to 127, \<open>float64\<close> one of 53 bits and exponents from -1022 to 1023.
  \<open>round_to T x\<close> is the element of dtype \<open>T\<close> nearest to the real \<open>x\<close>, a tie going to
  the even significand (the IEEE-754 default, which numpy uses). \<open>exponent T x\<close> is the
  exponent \<open>e\<close> with \<open>2^e <= |x| < 2^(e+1)\<close>, searched from 0 as far as the exponents
  of the dtype reach, and not less than the least exponent, where the subnormal numbers
  lie; \<open>ulp\<close> is the distance of two neighbouring elements at that exponent, and a
  result beyond the largest element is an infinity. An integer dtype holds its integers
  as they are.
\<close>

datatype np_dtype = UInt8 | UInt16 | Int16 | Int32 | Int64 | Float32 | Float64

definition pow2 :: "int \<Rightarrow> real" where
  "pow2 k = (if 0 \<le> k then 2 ^ nat k else 1 / 2 ^ nat (- k))"

definition round_half_even :: "real \<Rightarrow> int" where
  "round_half_even y =
    (let f = \<lfloor>y\<rfloor>; d = y - of_int f
     in if d < 1 / 2 then f else if 1 / 2 < d then f + 1 else if even f then f else f + 1)"

definition precision :: "np_dtype \<Rightarrow> int" where
  "precision T = (if T = Float32 then 24 else 53)"

definition emin :: "np_dtype \<Rightarrow> int" where
  "emin T = (if T = Float32 then - 126 else - 1022)"

definition emax :: "np_dtype \<Rightarrow> int" where
  "emax T = (if T = Float32 then 127 else 1023)"

fun exponent_from :: "nat \<Rightarrow> int \<Rightarrow> real \<Rightarrow> int" where
  "exponent_from 0 e x = e"
| "exponent_from (Suc n) e x =
    (if pow2 (e + 1) \<le> x then exponent_from n (e + 1) x
     else if x < pow2 e then exponent_from n (e - 1) x
     else e)"

definition exponent :: "np_dtype \<Rightarrow> real \<Rightarrow> int" where
  "exponent T x = max (exponent_from (nat (emax T + 1)) 0 \<bar>x\<bar>) (emin T)"

definition round_to :: "np_dtype \<Rightarrow> real \<Rightarrow> flt" where
  "round_to T x =
    (if (T \<noteq> Float32 \<and> T \<noteq> Float64) \<or> x = 0 then Fin x
     else
      (let ulp = pow2 (exponent T x - precision T + 1);
           y = of_int (round_half_even (x / ulp)) * ulp
       in if pow2 (emax T + 1) \<le> \<bar>y\<bar> then (if 0 < x then PInf else MInf) else Fin y))"

fun rnd :: "np_dtype \<Rightarrow> flt \<Rightarrow> flt" where
  "rnd T (Fin x) = round_to T x"
| "rnd T PInf = PInf"
| "rnd T MInf = MInf"
| "rnd T NaN = NaN"

text \<open>
  \<open>a - b\<close>, \<open>a + b\<close> and \<open>a / b\<close> on elements of arrays of dtype \<open>T\<close>: the result is the
  exact one, rounded to \<open>T\<close>.
\<close>

definition np_sub :: "np_dtype \<Rightarrow> flt \<Rightarrow> flt \<Rightarrow> flt" where
  "np_sub T a b = rnd T (fsub a b)"

definition np_add :: "np_dtype \<Rightarrow> flt \<Rightarrow> flt \<Rightarrow> flt" where
  "np_add T a b = rnd T (fadd a b)"

definition np_div :: "np_dtype \<Rightarrow> flt \<Rightarrow> flt \<Rightarrow> flt" where
  "np_div T a b = rnd T (fdiv a b)"

text \<open>
  \<open>a <= c\<close> and \<open>a > c\<close> for an element \<open>a\<close> of an array of dtype \<open>T\<close> and a Python
  constant \<open>c\<close>. A Python float is a \<open>float64\<close>; numpy converts it to the dtype of the
  array and compares there, so the constant the element is compared with is \<open>scalar T c\<close>.
  Every comparison with NaN is false.
\<close>

fun le_flt :: "flt \<Rightarrow> flt \<Rightarrow> bool" where
  "le_flt NaN b = False"
| "le_flt a NaN = False"
| "le_flt (Fin x) (Fin y) = (x \<le> y)"
| "le_flt MInf b = True"
| "le_flt a PInf = True"
| "le_flt a b = False"

fun gt_flt :: "flt \<Rightarrow> flt \<Rightarrow> bool" where
  "gt_flt NaN b = False"
| "gt_flt a NaN = False"
| "gt_flt (Fin x) (Fin y) = (y < x)"
| "gt_flt MInf b = False"
| "gt_flt a PInf = False"
| "gt_flt a b = True"

definition scalar :: "np_dtype \<Rightarrow> real \<Rightarrow> flt" where
  "scalar T c = rnd T (round_to Float64 c)"

definition np_le :: "np_dtype \<Rightarrow> flt \<Rightarrow> real \<Rightarrow> bool" where
  "np_le T a c = le_flt a (scalar T c)"

definition np_gt :: "np_dtype \<Rightarrow> flt \<Rightarrow> real \<Rightarrow> bool" where
  "np_gt T a c = gt_flt a (scalar T c)"

text \<open>
  The comparisons of the real numbers themselves, without any rounding of the constant:
  \<open>x <= c\<close> and \<open>x > c\<close> as the decision table of the specification prints them.
\<close>

fun exact_le :: "flt \<Rightarrow> real \<Rightarrow> bool" where
  "exact_le (Fin x) c = (x \<le> c)"
| "exact_le MInf c = True"
| "exact_le PInf c = False"
| "exact_le NaN c = False"

fun exact_gt :: "flt \<Rightarrow> real \<Rightarrow> bool" where
  "exact_gt (Fin x) c = (c < x)"
| "exact_gt PInf c = True"
| "exact_gt MInf c = False"
| "exact_gt NaN c = False"

text \<open>
  \<open>np.full(shape, no_data, dtype='uint8')\<close> converts the fill value to an unsigned byte:
  a finite value is truncated towards zero and wraps modulo 256 (\<open>-9999\<close> becomes 241).
  numpy leaves the conversion of NaN and of the infinities unspecified; 0 stands for it
  here, and \<open>run_regression_fill_irrelevant\<close> below shows that the value is never read.
\<close>

definition uint8_of :: "flt \<Rightarrow> 8 word" where
  "uint8_of v = (case v of
       Fin x \<Rightarrow> word_of_int (if 0 \<le> x then \<lfloor>x\<rfloor> else \<lceil>x\<rceil>)
     | _ \<Rightarrow> 0)"

text \<open>An unsigned byte stored into a float64 array.\<close>

definition float_of_uint8 :: "8 word \<Rightarrow> flt" where
  "float_of_uint8 w = Fin (real (unat w))"

section \<open>Arrays\<close>

text \<open>
  The band arrays of the notebook have the dimensions (time, y, x). An array is modelled
  as the list of its time slices, each slice being the list of the pixels of the
  footprint in row-major order. Its shape is the list of the slice lengths: the model
  keeps the number of pixels of a slice and not its two extents, so two arrays have one
  shape here when their slices have the same numbers of pixels. All operations of the
  classifier are elementwise.
\<close>

type_synonym 'a grid = "'a list list"
type_synonym shape = "nat list"

definition shape_of :: "'a grid \<Rightarrow> shape" where
  "shape_of g = map length g"

definition full :: "shape \<Rightarrow> 'a \<Rightarrow> 'a grid" where
  "full sh v = map (\<lambda>n. replicate n v) sh"

definition gmap :: "('a \<Rightarrow> 'b) \<Rightarrow> 'a grid \<Rightarrow> 'b grid" where
  "gmap f g = map (map f) g"

definition gzip :: "('a \<Rightarrow> 'b \<Rightarrow> 'c) \<Rightarrow> 'a grid \<Rightarrow> 'b grid \<Rightarrow> 'c grid" where
  "gzip f a b = map2 (map2 f) a b"

text \<open>
  \<open>a <= c\<close> on a whole array of dtype \<open>T\<close>, and \<open>~m\<close>, \<open>m & n\<close>, \<open>m | n\<close> on boolean
  arrays.
\<close>

definition gle :: "np_dtype \<Rightarrow> flt grid \<Rightarrow> real \<Rightarrow> bool grid" where
  "gle T a c = gmap (\<lambda>v. np_le T v c) a"

definition gnot :: "bool grid \<Rightarrow> bool grid" where
  "gnot m = gmap Not m"

definition gand :: "bool grid \<Rightarrow> bool grid \<Rightarrow> bool grid" where
  "gand m n = gzip (\<and>) m n"

definition gor :: "bool grid \<Rightarrow> bool grid \<Rightarrow> bool grid" where
  "gor m n = gzip (\<or>) m n"

text \<open>\<open>classified[mask] = v\<close>: the elements selected by the mask are overwritten.\<close>

definition assign :: "'a grid \<Rightarrow> bool grid \<Rightarrow> 'a \<Rightarrow> 'a grid" where
  "assign c m v = gzip (\<lambda>x b. if b then v else x) c m"

text \<open>Element \<open>p\<close> of time slice \<open>t\<close>, and the positions an array has.\<close>

definition px :: "'a grid \<Rightarrow> nat \<Rightarrow> nat \<Rightarrow> 'a" where
  "px g t p = g ! t ! p"

definition inside :: "'a grid \<Rightarrow> nat \<Rightarrow> nat \<Rightarrow> bool" where
  "inside g t p = (t < length g \<and> p < length (g ! t))"

section \<open>The WOfS classifier\<close>

subsection \<open>The regression tree\<close>

text \<open>
  \<open>_band_ratio(a, b) = (a - b) / (a + b)\<close> on arrays of dtype \<open>wd\<close>: three array
  operations, each rounding its result.
\<close>

definition band_ratio :: "np_dtype \<Rightarrow> flt grid \<Rightarrow> flt grid \<Rightarrow> flt grid" where
  "band_ratio wd a b = gzip (np_div wd) (gzip (np_sub wd) a b) (gzip (np_add wd) a b)"

text \<open>
  \<open>_run_regression\<close>, statement by statement. \<open>shape\<close> and \<open>no_data\<close> are the variables
  the inner function takes from \<open>wofs_classify\<close>, and \<open>wd\<close> is the dtype of the six
  arrays it is given (\<open>wofs_classify\<close> passes arrays of one floating-point dtype). The
  in-place updates \<open>_tmp &= r\<close> and the reassignments of \<open>_tmp2\<close>, \<open>r1\<close> and
  \<open>classified\<close> are successive bindings of the same name.
\<close>

definition run_regression ::
  "np_dtype \<Rightarrow> shape \<Rightarrow> flt \<Rightarrow> flt grid \<Rightarrow> flt grid \<Rightarrow> flt grid \<Rightarrow> flt grid \<Rightarrow> flt grid
    \<Rightarrow> flt grid \<Rightarrow> 8 word grid" where
  "run_regression wd shape no_data band1 band2 band3 band4 band5 band7 =
    (let ndi_52 = band_ratio wd band5 band2;
         ndi_43 = band_ratio wd band4 band3;
         ndi_72 = band_ratio wd band7 band2;
         classified = full shape (uint8_of no_data);
         r1 = gle wd ndi_52 (- 0.01);
         r2 = gle wd band1 2083.5;
         classified = assign classified (gand r1 (gnot r2)) 0;
         r3 = gle wd band7 323.5;
         tmp = gand r1 r2;
         tmp2 = gand tmp r3;
         tmp = gand tmp (gnot r3);
         r4 = gle wd ndi_43 0.61;
         classified = assign classified (gand tmp2 r4) 1;
         classified = assign classified (gand tmp2 (gnot r4)) 0;
         r5 = gle wd band1 1400.5;
         tmp2 = gand tmp (gnot r5);
         r6 = gle wd ndi_43 (- 0.01);
         classified = assign classified (gand tmp2 r6) 1;
         classified = assign classified (gand tmp2 (gnot r6)) 0;
         tmp = gand tmp r5;
         r7 = gle wd ndi_72 (- 0.23);
         tmp2 = gand tmp (gnot r7);
         r8 = gle wd band1 379;
         classified = assign classified (gand tmp2 r8) 1;
         classified = assign classified (gand tmp2 (gnot r8)) 0;
         tmp = gand tmp r7;
         r9 = gle wd ndi_43 0.22;
         classified = assign classified (gand tmp r9) 1;
         tmp = gand tmp (gnot r9);
         r10 = gle wd band1 473;
         classified = assign classified (gand tmp r10) 1;
         classified = assign classified (gand tmp (gnot r10)) 0;
         r1 = gnot r1;
         r11 = gle wd ndi_52 0.23;
         tmp = gand r1 r11;
         r12 = gle wd band1 334.5;
         tmp2 = gand tmp (gnot r12);
         classified = assign classified tmp2 0;
         tmp = gand tmp r12;
         r13 = gle wd ndi_43 0.54;
         tmp2 = gand tmp (gnot r13);
         classified = assign classified tmp2 0;
         tmp = gand tmp r13;
         r14 = gle wd ndi_52 0.12;
         tmp2 = gand tmp r14;
         classified = assign classified tmp2 1;
         tmp = gand tmp (gnot r14);
         r15 = gle wd band3 364.5;
         tmp2 = gand tmp r15;
         r16 = gle wd band1 129.5;
         classified = assign classified (gand tmp2 r16) 1;
         classified = assign classified (gand tmp2 (gnot r16)) 0;
         tmp = gand tmp (gnot r15);
         r17 = gle wd band1 300.5;
         tmp2 = gand tmp (gnot r17);
         tmp = gand tmp r17;
         classified = assign classified tmp 1;
         classified = assign classified tmp2 0;
         tmp = gand r1 (gnot r11);
         r18 = gle wd ndi_52 0.34;
         classified = assign classified (gand tmp (gnot r18)) 0;
         tmp = gand tmp r18;
         r19 = gle wd band1 249.5;
         classified = assign classified (gand tmp (gnot r19)) 0;
         tmp = gand tmp r19;
         r20 = gle wd ndi_43 0.45;
         classified = assign classified (gand tmp (gnot r20)) 0;
         tmp = gand tmp r20;
         r21 = gle wd band3 364.5;
         classified = assign classified (gand tmp (gnot r21)) 0;
         tmp = gand tmp r21;
         r22 = gle wd band1 129.5;
         classified = assign classified (gand tmp r22) 1;
         classified = assign classified (gand tmp (gnot r22)) 0
     in classified)"

text \<open>
  The masks of the assignments of \<open>_run_regression\<close>, in the order of the source, each
  with the class it assigns: the leaves of the tree (the source numbers them Node 3 to
  Node 45). The masks are computed from the three indices and from \<open>band1\<close>, \<open>band3\<close> and
  \<open>band7\<close> only, and never from \<open>classified\<close>.
\<close>

definition tree_leaves ::
  "np_dtype \<Rightarrow> flt grid \<Rightarrow> flt grid \<Rightarrow> flt grid \<Rightarrow> flt grid \<Rightarrow> flt grid \<Rightarrow> flt grid
    \<Rightarrow> (bool grid \<times> 8 word) list" where
  "tree_leaves wd ndi_52 ndi_43 ndi_72 band1 band3 band7 =
    (let r1 = gle wd ndi_52 (- 0.01);
         r2 = gle wd band1 2083.5;
         node3 = (gand r1 (gnot r2), 0);
         r3 = gle wd band7 323.5;
         tmp = gand r1 r2;
         tmp2 = gand tmp r3;
         tmp = gand tmp (gnot r3);
         r4 = gle wd ndi_43 0.61;
         node6 = (gand tmp2 r4, 1);
         node7 = (gand tmp2 (gnot r4), 0);
         r5 = gle wd band1 1400.5;
         tmp2 = gand tmp (gnot r5);
         r6 = gle wd ndi_43 (- 0.01);
         node10 = (gand tmp2 r6, 1);
         node11 = (gand tmp2 (gnot r6), 0);
         tmp = gand tmp r5;
         r7 = gle wd ndi_72 (- 0.23);
         tmp2 = gand tmp (gnot r7);
         r8 = gle wd band1 379;
         node14 = (gand tmp2 r8, 1);
         node15 = (gand tmp2 (gnot r8), 0);
         tmp = gand tmp r7;
         r9 = gle wd ndi_43 0.22;
         node17 = (gand tmp r9, 1);
         tmp = gand tmp (gnot r9);
         r10 = gle wd band1 473;
         node19 = (gand tmp r10, 1);
         node20 = (gand tmp (gnot r10), 0);
         r1 = gnot r1;
         r11 = gle wd ndi_52 0.23;
         tmp = gand r1 r11;
         r12 = gle wd band1 334.5;
         tmp2 = gand tmp (gnot r12);
         node23 = (tmp2, 0);
         tmp = gand tmp r12;
         r13 = gle wd ndi_43 0.54;
         tmp2 = gand tmp (gnot r13);
         node25 = (tmp2, 0);
         tmp = gand tmp r13;
         r14 = gle wd ndi_52 0.12;
         tmp2 = gand tmp r14;
         node27 = (tmp2, 1);
         tmp = gand tmp (gnot r14);
         r15 = gle wd band3 364.5;
         tmp2 = gand tmp r15;
         r16 = gle wd band1 129.5;
         node31 = (gand tmp2 r16, 1);
         node32 = (gand tmp2 (gnot r16), 0);
         tmp = gand tmp (gnot r15);
         r17 = gle wd band1 300.5;
         tmp2 = gand tmp (gnot r17);
         tmp = gand tmp r17;
         node33 = (tmp, 1);
         node34 = (tmp2, 0);
         tmp = gand r1 (gnot r11);
         r18 = gle wd ndi_52 0.34;
         node36 = (gand tmp (gnot r18), 0);
         tmp = gand tmp r18;
         r19 = gle wd band1 249.5;
         node38 = (gand tmp (gnot r19), 0);
         tmp = gand tmp r19;
         r20 = gle wd ndi_43 0.45;
         node40 = (gand tmp (gnot r20), 0);
         tmp = gand tmp r20;
         r21 = gle wd band3 364.5;
         node42 = (gand tmp (gnot r21), 0);
         tmp = gand tmp r21;
         r22 = gle wd band1 129.5;
         node44 = (gand tmp r22, 1);
         node45 = (gand tmp (gnot r22), 0)
     in [node3, node6, node7, node10, node11, node14, node15, node17, node19, node20,
         node23, node25, node27, node31, node32, node33, node34,
         node36, node38, node40, node42, node44, node45])"

text \<open>The leaves whose mask holds at one position, and the classes they assign there.\<close>

definition leaves_at :: "(bool grid \<times> 8 word) list \<Rightarrow> nat \<Rightarrow> nat \<Rightarrow> 8 word list" where
  "leaves_at ls t p = map snd (filter (\<lambda>l. px (fst l) t p) ls)"

subsection \<open>The decision table of the specification\<close>

text \<open>
  The table of section 4.2 of the specification, written from its words: a feature tuple
  (ndi_52, ndi_43, ndi_72, b1, b3, b7), the two branches and the two sub-branches with
  their conditions, and in each the ordered rules of which the first matching one gives
  the class. The table is read with a comparison \<open>leq\<close> for the conditions it writes
  \<open><=\<close> and a comparison \<open>gtr\<close> for those it writes \<open>>\<close>: with \<open>exact_le\<close> and
  \<open>exact_gt\<close> it is the table with every threshold exactly as listed, with \<open>np_le T\<close>
  and \<open>np_gt T\<close> it is the table with the comparisons of arrays of dtype \<open>T\<close>. The
  features of the specification are the ratios of the band values as real numbers
  (\<open>exact_features\<close>).
\<close>

type_synonym features = "flt \<times> flt \<times> flt \<times> flt \<times> flt \<times> flt"

fun first_match :: "(('x \<Rightarrow> bool) \<times> ('x \<Rightarrow> nat)) list \<Rightarrow> 'x \<Rightarrow> nat option" where
  "first_match [] x = None"
| "first_match (r # rs) x = (if fst r x then Some (snd r x) else first_match rs x)"

type_synonym comparison = "flt \<Rightarrow> real \<Rightarrow> bool"

definition left_rules ::
  "comparison \<Rightarrow> comparison \<Rightarrow> ((features \<Rightarrow> bool) \<times> (features \<Rightarrow> nat)) list" where
  "left_rules leq gtr =
    [(\<lambda>(ndi_52, ndi_43, ndi_72, b1, b3, b7). gtr b1 2083.5,
      \<lambda>(ndi_52, ndi_43, ndi_72, b1, b3, b7). 0),
     (\<lambda>(ndi_52, ndi_43, ndi_72, b1, b3, b7). leq b7 323.5,
      \<lambda>(ndi_52, ndi_43, ndi_72, b1, b3, b7). if leq ndi_43 0.61 then 1 else 0),
     (\<lambda>(ndi_52, ndi_43, ndi_72, b1, b3, b7). gtr b1 1400.5,
      \<lambda>(ndi_52, ndi_43, ndi_72, b1, b3, b7). if leq ndi_43 (- 0.01) then 1 else 0),
     (\<lambda>(ndi_52, ndi_43, ndi_72, b1, b3, b7). gtr ndi_72 (- 0.23),
      \<lambda>(ndi_52, ndi_43, ndi_72, b1, b3, b7). if leq b1 379 then 1 else 0),
     (\<lambda>(ndi_52, ndi_43, ndi_72, b1, b3, b7). leq ndi_43 0.22,
      \<lambda>(ndi_52, ndi_43, ndi_72, b1, b3, b7). 1),
     (\<lambda>(ndi_52, ndi_43, ndi_72, b1, b3, b7). True,
      \<lambda>(ndi_52, ndi_43, ndi_72, b1, b3, b7). if leq b1 473 then 1 else 0)]"

definition right_a_rules ::
  "comparison \<Rightarrow> comparison \<Rightarrow> ((features \<Rightarrow> bool) \<times> (features \<Rightarrow> nat)) list" where
  "right_a_rules leq gtr =
    [(\<lambda>(ndi_52, ndi_43, ndi_72, b1, b3, b7). gtr b1 334.5,
      \<lambda>(ndi_52, ndi_43, ndi_72, b1, b3, b7). 0),
     (\<lambda>(ndi_52, ndi_43, ndi_72, b1, b3, b7). gtr ndi_43 0.54,
      \<lambda>(ndi_52, ndi_43, ndi_72, b1, b3, b7). 0),
     (\<lambda>(ndi_52, ndi_43, ndi_72, b1, b3, b7). leq ndi_52 0.12,
      \<lambda>(ndi_52, ndi_43, ndi_72, b1, b3, b7). 1),
     (\<lambda>(ndi_52, ndi_43, ndi_72, b1, b3, b7). leq b3 364.5,
      \<lambda>(ndi_52, ndi_43, ndi_72, b1, b3, b7). if leq b1 129.5 then 1 else 0),
     (\<lambda>(ndi_52, ndi_43, ndi_72, b1, b3, b7). True,
      \<lambda>(ndi_52, ndi_43, ndi_72, b1, b3, b7). if leq b1 300.5 then 1 else 0)]"

definition right_b_rules ::
  "comparison \<Rightarrow> comparison \<Rightarrow> ((features \<Rightarrow> bool) \<times> (features \<Rightarrow> nat)) list" where
  "right_b_rules leq gtr =
    [(\<lambda>(ndi_52, ndi_43, ndi_72, b1, b3, b7). gtr ndi_52 0.34,
      \<lambda>(ndi_52, ndi_43, ndi_72, b1, b3, b7). 0),
     (\<lambda>(ndi_52, ndi_43, ndi_72, b1, b3, b7). gtr b1 249.5,
      \<lambda>(ndi_52, ndi_43, ndi_72, b1, b3, b7). 0),
     (\<lambda>(ndi_52, ndi_43, ndi_72, b1, b3, b7). gtr ndi_43 0.45,
      \<lambda>(ndi_52, ndi_43, ndi_72, b1, b3, b7). 0),
     (\<lambda>(ndi_52, ndi_43, ndi_72, b1, b3, b7). gtr b3 364.5,
      \<lambda>(ndi_52, ndi_43, ndi_72, b1, b3, b7). 0),
     (\<lambda>(ndi_52, ndi_43, ndi_72, b1, b3, b7). True,
      \<lambda>(ndi_52, ndi_43, ndi_72, b1, b3, b7). if leq b1 129.5 then 1 else 0)]"

definition spec_table :: "comparison \<Rightarrow> comparison \<Rightarrow> features \<Rightarrow> nat option" where
  "spec_table leq gtr x =
    (case x of (ndi_52, ndi_43, ndi_72, b1, b3, b7) \<Rightarrow>
      if leq ndi_52 (- 0.01) then first_match (left_rules leq gtr) x
      else if gtr ndi_52 (- 0.01) then
        (if leq ndi_52 0.23 then first_match (right_a_rules leq gtr) x
         else if gtr ndi_52 0.23 then first_match (right_b_rules leq gtr) x
         else None)
      else None)"

definition exact_ratio :: "flt \<Rightarrow> flt \<Rightarrow> flt" where
  "exact_ratio a b = fdiv (fsub a b) (fadd a b)"

definition exact_features :: "flt \<Rightarrow> flt \<Rightarrow> flt \<Rightarrow> flt \<Rightarrow> flt \<Rightarrow> flt \<Rightarrow> features" where
  "exact_features v1 v2 v3 v4 v5 v7 =
    (exact_ratio v5 v2, exact_ratio v4 v3, exact_ratio v7 v2, v1, v3, v7)"

subsection \<open>The tree at one pixel\<close>

text \<open>
  The three indices and the three bands of one pixel, as \<open>_run_regression\<close> computes them
  from the six band values of that pixel in arrays of dtype \<open>wd\<close>.
\<close>

definition ratio :: "np_dtype \<Rightarrow> flt \<Rightarrow> flt \<Rightarrow> flt" where
  "ratio wd a b = np_div wd (np_sub wd a b) (np_add wd a b)"

definition pixel_features ::
  "np_dtype \<Rightarrow> flt \<Rightarrow> flt \<Rightarrow> flt \<Rightarrow> flt \<Rightarrow> flt \<Rightarrow> flt \<Rightarrow> features" where
  "pixel_features wd v1 v2 v3 v4 v5 v7 =
    (ratio wd v5 v2, ratio wd v4 v3, ratio wd v7 v2, v1, v3, v7)"

text \<open>
  The value of every leaf mask of \<open>tree_leaves\<close> at one pixel (lemma \<open>conds_at\<close>), and
  the nested conditional that the sequence of masked assignments amounts to (lemma
  \<open>run_regression_px\<close>). Both are read off the source: \<open>r1\<close> to \<open>r22\<close> are its tests.
\<close>

definition leaf_conds :: "np_dtype \<Rightarrow> features \<Rightarrow> (bool \<times> 8 word) list" where
  "leaf_conds wd x =
    (case x of (ndi_52, ndi_43, ndi_72, b1, b3, b7) \<Rightarrow>
      (let r1 = np_le wd ndi_52 (- 0.01); r2 = np_le wd b1 2083.5; r3 = np_le wd b7 323.5;
           r4 = np_le wd ndi_43 0.61; r5 = np_le wd b1 1400.5; r6 = np_le wd ndi_43 (- 0.01);
           r7 = np_le wd ndi_72 (- 0.23); r8 = np_le wd b1 379; r9 = np_le wd ndi_43 0.22;
           r10 = np_le wd b1 473; r11 = np_le wd ndi_52 0.23; r12 = np_le wd b1 334.5;
           r13 = np_le wd ndi_43 0.54; r14 = np_le wd ndi_52 0.12; r15 = np_le wd b3 364.5;
           r16 = np_le wd b1 129.5; r17 = np_le wd b1 300.5; r18 = np_le wd ndi_52 0.34;
           r19 = np_le wd b1 249.5; r20 = np_le wd ndi_43 0.45; r21 = np_le wd b3 364.5;
           r22 = np_le wd b1 129.5
       in [(r1 \<and> \<not> r2, 0),
           (r1 \<and> r2 \<and> r3 \<and> r4, 1),
           (r1 \<and> r2 \<and> r3 \<and> \<not> r4, 0),
           (r1 \<and> r2 \<and> \<not> r3 \<and> \<not> r5 \<and> r6, 1),
           (r1 \<and> r2 \<and> \<not> r3 \<and> \<not> r5 \<and> \<not> r6, 0),
           (r1 \<and> r2 \<and> \<not> r3 \<and> r5 \<and> \<not> r7 \<and> r8, 1),
           (r1 \<and> r2 \<and> \<not> r3 \<and> r5 \<and> \<not> r7 \<and> \<not> r8, 0),
           (r1 \<and> r2 \<and> \<not> r3 \<and> r5 \<and> r7 \<and> r9, 1),
           (r1 \<and> r2 \<and> \<not> r3 \<and> r5 \<and> r7 \<and> \<not> r9 \<and> r10, 1),
           (r1 \<and> r2 \<and> \<not> r3 \<and> r5 \<and> r7 \<and> \<not> r9 \<and> \<not> r10, 0),
           (\<not> r1 \<and> r11 \<and> \<not> r12, 0),
           (\<not> r1 \<and> r11 \<and> r12 \<and> \<not> r13, 0),
           (\<not> r1 \<and> r11 \<and> r12 \<and> r13 \<and> r14, 1),
           (\<not> r1 \<and> r11 \<and> r12 \<and> r13 \<and> \<not> r14 \<and> r15 \<and> r16, 1),
           (\<not> r1 \<and> r11 \<and> r12 \<and> r13 \<and> \<not> r14 \<and> r15 \<and> \<not> r16, 0),
           (\<not> r1 \<and> r11 \<and> r12 \<and> r13 \<and> \<not> r14 \<and> \<not> r15 \<and> r17, 1),
           (\<not> r1 \<and> r11 \<and> r12 \<and> r13 \<and> \<not> r14 \<and> \<not> r15 \<and> \<not> r17, 0),
           (\<not> r1 \<and> \<not> r11 \<and> \<not> r18, 0),
           (\<not> r1 \<and> \<not> r11 \<and> r18 \<and> \<not> r19, 0),
           (\<not> r1 \<and> \<not> r11 \<and> r18 \<and> r19 \<and> \<not> r20, 0),
           (\<not> r1 \<and> \<not> r11 \<and> r18 \<and> r19 \<and> r20 \<and> \<not> r21, 0),
           (\<not> r1 \<and> \<not> r11 \<and> r18 \<and> r19 \<and> r20 \<and> r21 \<and> r22, 1),
           (\<not> r1 \<and> \<not> r11 \<and> r18 \<and> r19 \<and> r20 \<and> r21 \<and> \<not> r22, 0)]))"

definition tree_class :: "np_dtype \<Rightarrow> features \<Rightarrow> 8 word" where
  "tree_class wd x =
    (case x of (ndi_52, ndi_43, ndi_72, b1, b3, b7) \<Rightarrow>
      if np_le wd ndi_52 (- 0.01) then
        (if \<not> np_le wd b1 2083.5 then 0
         else if np_le wd b7 323.5 then (if np_le wd ndi_43 0.61 then 1 else 0)
         else if \<not> np_le wd b1 1400.5 then (if np_le wd ndi_43 (- 0.01) then 1 else 0)
         else if \<not> np_le wd ndi_72 (- 0.23) then (if np_le wd b1 379 then 1 else 0)
         else if np_le wd ndi_43 0.22 then 1
         else if np_le wd b1 473 then 1 else 0)
      else if np_le wd ndi_52 0.23 then
        (if \<not> np_le wd b1 334.5 then 0
         else if \<not> np_le wd ndi_43 0.54 then 0
         else if np_le wd ndi_52 0.12 then 1
         else if np_le wd b3 364.5 then (if np_le wd b1 129.5 then 1 else 0)
         else if np_le wd b1 300.5 then 1 else 0)
      else
        (if \<not> np_le wd ndi_52 0.34 then 0
         else if \<not> np_le wd b1 249.5 then 0
         else if \<not> np_le wd ndi_43 0.45 then 0
         else if \<not> np_le wd b3 364.5 then 0
         else if np_le wd b1 129.5 then 1 else 0))"

subsection \<open>Datasets and \<open>wofs_classify\<close>\<close>

text \<open>
  Python exceptions are values. A numpy array has a dtype and its elements (\<open>vals\<close>
  stands for the attribute \<open>values\<close>); an \<open>xarray.Dataset\<close> maps the names of its
  variables and coordinates to arrays. xarray keeps the variables of one dataset that
  share dimensions at one shape; the theorems below state this as a hypothesis
  (\<open>has_bands\<close>, \<open>task_input\<close>).
\<close>

datatype error =
    NameError string
  | AttributeError string
  | KeyError string
  | IndexError
  | ValueError

text \<open>
  Sequencing: a statement that raises ends the function with that exception, otherwise
  the rest of the function runs with the value.
\<close>

definition and_then :: "error + 'a \<Rightarrow> ('a \<Rightarrow> error + 'b) \<Rightarrow> error + 'b" where
  "and_then m f = (case m of Inl e \<Rightarrow> Inl e | Inr v \<Rightarrow> f v)"

record ndarray =
  dtype :: np_dtype
  vals :: "flt grid"

type_synonym dataset = "string \<rightharpoonup> ndarray"

text \<open>\<open>dataset_in.B02\<close> and \<open>dataset_in[name]\<close>.\<close>

definition getattr :: "dataset \<Rightarrow> string \<Rightarrow> error + ndarray" where
  "getattr ds name = (case ds name of None \<Rightarrow> Inl (AttributeError name) | Some a \<Rightarrow> Inr a)"

definition getitem :: "dataset \<Rightarrow> string \<Rightarrow> error + ndarray" where
  "getitem ds name = (case ds name of None \<Rightarrow> Inl (KeyError name) | Some a \<Rightarrow> Inr a)"

text \<open>
  \<open>a.astype(T)\<close> for a floating-point dtype \<open>T\<close>: an array of dtype \<open>T\<close> whose elements
  are those of \<open>a\<close>, each rounded to \<open>T\<close>.
\<close>

definition astype :: "ndarray \<Rightarrow> np_dtype \<Rightarrow> ndarray" where
  "astype a T = \<lparr>dtype = T, vals = gmap (rnd T) (vals a)\<rparr>"

text \<open>
  The names the cells of the first notebook bind at top level: its imports, its
  variables and its three functions. A name that is neither among them nor a Python
  builtin raises \<open>NameError\<close> when it is evaluated.
\<close>

definition notebook_globals :: "string list" where
  "notebook_globals =
    [''datacube'', ''masking'', ''geometry'', ''sys'', ''os'', ''rasterio'', ''xarray'',
     ''glob'', ''np'', ''pd'', ''sn'', ''gpd'', ''plt'', ''mp'', ''scipy'', ''warnings'',
     ''GeoSeries'', ''GeoDataFrame'', ''Point'', ''confusion_matrix'', ''accuracy_score'',
     ''plot_confusion_matrix'', ''f1_score'', ''map_shapefile'', ''display_map'', ''rgb'',
     ''xr_rasterize'', ''wofs_fuser'', ''mostcommon_crs'', ''load_ard'', ''deepcopy'',
     ''create_local_dask_cluster'', ''tqdm'', ''path2csv'', ''df'', ''geometries'', ''crs'',
     ''ValPoints'', ''path'', ''input_data'', ''query'', ''gc'', ''xr'', ''argparse'',
     ''collections'', ''gdal'', ''datetime'', ''wofs_classify'', ''get_wofs_for_point'',
     ''_parallel_fun'', ''results_wet_test'', ''results_clear_test'', ''index'', ''row'',
     ''time'', ''wet'', ''clear'', ''wetdf'', ''cleardf'', ''df2'', ''final_df'', ''countA'',
     ''countB'']"

text \<open>
  \<open>if clean_mask is None: clean_mask = create_default_clean_mask(dataset_in)\<close>. The call
  evaluates the global name first. Were the name bound, the mask would be the one the
  docstring promises (every value clean); the shape is that of \<open>B02\<close>.
\<close>

definition default_clean_mask :: "dataset \<Rightarrow> bool grid option \<Rightarrow> error + bool grid" where
  "default_clean_mask dataset_in clean_mask =
    (case clean_mask of
       Some m \<Rightarrow> Inr m
     | None \<Rightarrow>
        if ''create_default_clean_mask'' \<in> set notebook_globals
        then Inr (case dataset_in ''B02'' of None \<Rightarrow> [] | Some a \<Rightarrow> full (shape_of (vals a)) True)
        else Inl (NameError ''create_default_clean_mask''))"

text \<open>
  The dtype the six bands are converted to, if any: \<open>float64\<close> when it is enforced and
  the blue band has another dtype; otherwise \<open>float32\<close> unless the blue band is
  \<open>float64\<close> or \<open>float32\<close> already.
\<close>

definition cast_target :: "np_dtype \<Rightarrow> bool \<Rightarrow> np_dtype option" where
  "cast_target dt enforce_float64 =
    (if enforce_float64 then (if dt \<noteq> Float64 then Some Float64 else None)
     else if dt = Float64 then None
     else if dt \<noteq> Float32 then Some Float32
     else None)"

text \<open>
  \<open>classified_clean[clean_mask] = classified[clean_mask]\<close>: where the mask holds, the
  unsigned byte of \<open>classified\<close> is stored into the float64 array.
\<close>

definition copy_masked :: "flt grid \<Rightarrow> bool grid \<Rightarrow> 8 word grid \<Rightarrow> flt grid" where
  "copy_masked dst m src =
    gzip (\<lambda>d bs. if fst bs then float_of_uint8 (snd bs) else d) dst (gzip Pair m src)"

text \<open>
  \<open>wofs_classify\<close>. The result is the array of the variable \<open>wofs\<close> of the dataset it
  returns, together with the input dataset as the call leaves it: \<open>blue.values = ...\<close>
  assigns to the variable that \<open>dataset_in\<close> holds, so the caller's dataset changes.
  A boolean index of another shape than the indexed array raises \<open>IndexError\<close>; a
  coordinate name the dataset does not have raises \<open>KeyError\<close>. The coordinates are
  only looked up: the labelled result carries them, its values are \<open>classified_clean\<close>.
  Every array of this model has the time dimension, as the arrays of the notebook have.
  With \<open>mosaic\<close> the function gives \<open>xr.DataArray\<close> the two dimension names \<open>y\<close> and
  \<open>x\<close> for such data, which raises \<open>ValueError\<close>. \<open>_run_regression\<close> gets the arrays of
  the six bands after the conversion; the source takes them to have the dtype of the
  blue band (``this assumes all dataset bands will have the same dtype''), which after
  the conversion is \<open>float32\<close> or \<open>float64\<close>. \<open>no_data\<close> is a Python float and is
  stored into the \<open>float64\<close> array as it is.
\<close>

definition wofs_classify ::
  "dataset \<Rightarrow> bool grid option \<Rightarrow> string \<Rightarrow> string \<Rightarrow> string \<Rightarrow> flt \<Rightarrow> bool \<Rightarrow> bool
    \<Rightarrow> error + (flt grid \<times> dataset)" where
  "wofs_classify dataset_in clean_mask x_coord y_coord time_coord no_data mosaic enforce_float64 =
    and_then (default_clean_mask dataset_in clean_mask) (\<lambda>clean_mask.
    and_then (getattr dataset_in ''B02'') (\<lambda>blue.
    and_then (getattr dataset_in ''B03'') (\<lambda>green.
    and_then (getattr dataset_in ''B04'') (\<lambda>red.
    and_then (getattr dataset_in ''B08'') (\<lambda>nir.
    and_then (getattr dataset_in ''B11'') (\<lambda>swir1.
    and_then (getattr dataset_in ''B12'') (\<lambda>swir2.
     (let target = cast_target (dtype blue) enforce_float64;
          conv = (\<lambda>a. case target of None \<Rightarrow> a | Some T \<Rightarrow> astype a T);
          blue = conv blue; green = conv green; red = conv red;
          nir = conv nir; swir1 = conv swir1; swir2 = conv swir2;
          dataset_in =
            (case target of
               None \<Rightarrow> dataset_in
             | Some T \<Rightarrow> dataset_in(''B02'' \<mapsto> blue, ''B03'' \<mapsto> green, ''B04'' \<mapsto> red,
                           ''B08'' \<mapsto> nir, ''B11'' \<mapsto> swir1, ''B12'' \<mapsto> swir2));
          shape = shape_of (vals blue);
          classified = run_regression (dtype blue) shape no_data (vals blue) (vals green)
                         (vals red) (vals nir) (vals swir1) (vals swir2);
          classified_clean = full (shape_of classified) no_data
      in if shape_of clean_mask \<noteq> shape_of classified then Inl IndexError
         else
          (let classified_clean = copy_masked classified_clean clean_mask classified
           in and_then (getitem dataset_in x_coord) (\<lambda>x_coords.
              and_then (getitem dataset_in y_coord) (\<lambda>y_coords.
              if mosaic then Inl ValueError
              else and_then (getitem dataset_in time_coord) (\<lambda>time_coords.
                Inr (classified_clean, dataset_in)))))))))))))"

section \<open>The point-month task\<close>

text \<open>\<open>str(n)\<close> for a Python integer.\<close>

fun str_nat :: "nat \<Rightarrow> string" where
  "str_nat n =
    (if n < 10 then [''0123456789'' ! n]
     else str_nat (n div 10) @ [''0123456789'' ! (n mod 10)])"

declare str_nat.simps [simp del]

definition str_int :: "int \<Rightarrow> string" where
  "str_int i = (if i < 0 then CHR ''-'' # str_nat (nat (- i)) else str_nat (nat i))"

text \<open>
  \<open>timeYM = '2018-' + f'{month:02d}'\<close>, \<open>start_date = np.datetime64(timeYM)\<close>,
  \<open>end_date = start_date + 5 days\<close> and \<open>time = (str(start_date), str(end_date))\<close>.
  \<open>np.datetime64\<close> raises \<open>ValueError\<close> for a month outside 1 to 12. The start is the
  first day of the month, printed at month precision, so the end is always its sixth day.
\<close>

definition pad2 :: "int \<Rightarrow> string" where
  "pad2 m = (let s = str_int m in if length s < 2 then CHR ''0'' # s else s)"

definition time_window :: "int \<Rightarrow> error + (string \<times> string)" where
  "time_window month =
    (let timeYM = ''2018-'' @ pad2 month
     in if 1 \<le> month \<and> month \<le> 12 then Inr (timeYM, timeYM @ ''-06'') else Inl ValueError)"

text \<open>
  \<open>np.isin(a, codes)\<close>, \<open>a == c\<close>, the selection of time slices by a boolean vector
  (\<open>isel(time=clear)\<close>) and \<open>max()\<close> over all elements of a boolean array, which raises
  \<open>ValueError\<close> on an array without elements.
\<close>

definition isin :: "flt grid \<Rightarrow> real list \<Rightarrow> bool grid" where
  "isin a codes = gmap (\<lambda>v. v \<in> set (map Fin codes)) a"

definition geq :: "flt grid \<Rightarrow> real \<Rightarrow> bool grid" where
  "geq a c = gmap (\<lambda>v. v = Fin c) a"

definition isel :: "'a grid \<Rightarrow> bool list \<Rightarrow> 'a grid" where
  "isel a sel = map snd (filter fst (zip sel a))"

definition amax :: "bool grid \<Rightarrow> error + bool" where
  "amax a = (if concat a = [] then Inl ValueError else Inr (True \<in> set (concat a)))"

text \<open>
  \<open>get_wofs_for_point\<close>. \<open>month\<close> and \<open>plot_id\<close> are the fields \<open>MONTH\<close> and
  \<open>PLOT_ID\<close> of the row of \<open>input_data\<close> (the plot id as \<open>int(plot_id)\<close> gives it),
  \<open>s2_data\<close> is what \<open>dc.load\<close> returned for the point and the window, and the two
  dictionaries are passed in and returned. The first component of the result is the
  value the function returns: \<open>None\<close> where it falls through \<open>pass\<close>, else \<open>time\<close>.
\<close>

definition get_wofs_for_point ::
  "int \<Rightarrow> int \<Rightarrow> dataset \<Rightarrow> (string \<rightharpoonup> int) \<Rightarrow> (string \<rightharpoonup> int)
    \<Rightarrow> error + ((string \<times> string) option \<times> (string \<rightharpoonup> int) \<times> (string \<rightharpoonup> int))" where
  "get_wofs_for_point month plot_id s2_data results_wet results_clear =
    and_then (time_window month) (\<lambda>time.
     if s2_data ''B02'' = None then Inr (None, results_wet, results_clear)
     else
      and_then (getitem s2_data ''SCL'') (\<lambda>scl.
      (let clean_mask = isin (vals scl) [4, 5, 6, 7, 11]
       in and_then (wofs_classify s2_data (Some clean_mask) ''x'' ''y'' ''time'' NaN False False)
          (\<lambda>s2_wofs.
            (let wofls = fst s2_wofs;
                 wofl_wetnocloud = geq wofls 1;
                 wofl_drynocloud = geq wofls 0;
                 clear = map (list_all id) (gor wofl_wetnocloud wofl_drynocloud);
                 n_clear = length (filter id clear)
             in and_then (if 0 < n_clear then amax (isel wofl_wetnocloud clear) else Inr False)
                (\<lambda>wet.
                  (let key = str_int plot_id @ ''_'' @ str_int month
                   in Inr (Some time,
                           results_wet(key \<mapsto> (if wet then 1 else 0)),
                           results_clear(key \<mapsto> int n_clear)))))))))"

section \<open>The accuracy assessment\<close>

text \<open>
  A row of the merged table, and \<open>pd.crosstab(index, columns, margins=True)\<close>: the table
  has a row for every value that occurs in \<open>index\<close>, a column for every value that occurs
  in \<open>columns\<close>, and the margin \<open>All\<close> in both (\<open>frequencies\<close> gives its cells); a
  value that does not occur has no row (or column), and looking it up raises
  \<open>KeyError\<close>. On columns without any row \<open>pd.crosstab\<close> cannot add the margins and
  raises \<open>ValueError\<close>. The assessment computes its quotients and products in
  \<open>float64\<close>; this section gives them as real numbers (\<open>fdiv\<close>, \<open>fmul\<close> and \<open>fadd\<close>
  without rounding).
\<close>

record obs =
  PLOT_ID :: int
  MONTH :: int
  ACTUAL :: int
  PREDICTION :: int

datatype label = Lab int | AllLab

fun has_label :: "int list \<Rightarrow> label \<Rightarrow> bool" where
  "has_label xs (Lab v) = (v \<in> set xs)"
| "has_label xs AllLab = True"

fun matches :: "label \<Rightarrow> int \<Rightarrow> bool" where
  "matches (Lab v) x = (x = v)"
| "matches AllLab x = True"

fun show_label :: "label \<Rightarrow> string" where
  "show_label (Lab v) = str_int v"
| "show_label AllLab = ''All''"

definition frequencies :: "int list \<Rightarrow> int list \<Rightarrow> label \<Rightarrow> label \<Rightarrow> nat option" where
  "frequencies index columns r c =
    (if has_label index r \<and> has_label columns c
     then Some (length (filter (\<lambda>ap. matches r (fst ap) \<and> matches c (snd ap)) (zip index columns)))
     else None)"

definition crosstab ::
  "int list \<Rightarrow> int list \<Rightarrow> error + (label \<Rightarrow> label \<Rightarrow> nat option)" where
  "crosstab index columns =
    (if zip index columns = [] then Inl ValueError else Inr (frequencies index columns))"

text \<open>\<open>confusion_matrix.loc[r][c]\<close> (row first) and \<open>confusion_matrix[c][r]\<close> (column first).\<close>

definition loc :: "(label \<Rightarrow> label \<Rightarrow> nat option) \<Rightarrow> label \<Rightarrow> label \<Rightarrow> error + nat" where
  "loc cm r c =
    (case cm r AllLab of None \<Rightarrow> Inl (KeyError (show_label r))
     | Some _ \<Rightarrow> (case cm r c of None \<Rightarrow> Inl (KeyError (show_label c)) | Some n \<Rightarrow> Inr n))"

definition col :: "(label \<Rightarrow> label \<Rightarrow> nat option) \<Rightarrow> label \<Rightarrow> label \<Rightarrow> error + nat" where
  "col cm c r =
    (case cm AllLab c of None \<Rightarrow> Inl (KeyError (show_label c))
     | Some _ \<Rightarrow> (case cm r c of None \<Rightarrow> Inl (KeyError (show_label r)) | Some n \<Rightarrow> Inr n))"

text \<open>
  \<open>sklearn.metrics.f1_score(y_true, y_pred)\<close> with its defaults (binary, positive class
  1). It raises \<open>ValueError\<close> when the two columns hold more than two distinct labels,
  or two labels none of which is 1. Precision and recall are 0 where their denominator
  is 0, and so is the score where both are 0.
\<close>

definition f1_score :: "int list \<Rightarrow> int list \<Rightarrow> error + flt" where
  "f1_score y_true y_pred =
    (let present_labels = remdups (y_true @ y_pred)
     in if 2 < length present_labels \<or> (length present_labels = 2 \<and> 1 \<notin> set present_labels)
        then Inl ValueError
        else
         (let pairs = zip y_true y_pred;
              tp = length (filter (\<lambda>ap. fst ap = 1 \<and> snd ap = 1) pairs);
              pred_sum = length (filter (\<lambda>ap. snd ap = 1) pairs);
              true_sum = length (filter (\<lambda>ap. fst ap = 1) pairs);
              precision =
                (if pred_sum = 0 then Fin 0 else fdiv (Fin (real tp)) (Fin (real pred_sum)));
              recall =
                (if true_sum = 0 then Fin 0 else fdiv (Fin (real tp)) (Fin (real true_sum)));
              denom = fadd precision recall;
              denom = (if denom = Fin 0 then Fin 1 else denom)
          in Inr (fdiv (fmul (Fin 2) (fmul precision recall)) denom)))"

text \<open>
  The cells of the second notebook from the crosstab to the F-score, before the final
  rounding to two decimals. The column \<open>Producer's\<close> is assigned a list of three values,
  which raises \<open>ValueError\<close> unless the table has three rows (two values of ACTUAL and
  the margin). \<open>WetMonth\<close> is the season; the report is the content of the
  added column \<open>Producer's\<close> and of the added rows \<open>User's\<close> and \<open>F-score\<close>.
\<close>

record report =
  producers0 :: flt
  producers1 :: flt
  users0 :: flt
  users1 :: flt
  overall :: flt
  fscore0 :: flt
  fscore1 :: flt

definition percent :: "nat \<Rightarrow> nat \<Rightarrow> flt" where
  "percent n d = fmul (fdiv (Fin (real n)) (Fin (real d))) (Fin 100)"

definition accuracy_assessment :: "obs list \<Rightarrow> int list \<Rightarrow> error + report" where
  "accuracy_assessment input_data WetMonth =
    (let Wet_Season = filter (\<lambda>r. MONTH r \<in> set WetMonth) input_data
     in and_then (crosstab (map ACTUAL Wet_Season) (map PREDICTION Wet_Season))
          (\<lambda>confusion_matrix.
        and_then (loc confusion_matrix (Lab 0) (Lab 0)) (\<lambda>p00.
        and_then (loc confusion_matrix (Lab 0) AllLab) (\<lambda>row0.
        and_then (loc confusion_matrix (Lab 1) (Lab 1)) (\<lambda>p11.
        and_then (loc confusion_matrix (Lab 1) AllLab) (\<lambda>row1.
        if length (remdups (map ACTUAL Wet_Season)) + 1 \<noteq> 3 then Inl ValueError else
        and_then (col confusion_matrix (Lab 0) (Lab 0)) (\<lambda>u00.
        and_then (col confusion_matrix (Lab 0) AllLab) (\<lambda>col0.
        and_then (col confusion_matrix (Lab 1) (Lab 1)) (\<lambda>u11.
        and_then (col confusion_matrix (Lab 1) AllLab) (\<lambda>col1.
        and_then (col confusion_matrix AllLab AllLab) (\<lambda>grand.
        (let producers_0 = percent p00 row0;
             producers_1 = percent p11 row1;
             users_0 = percent u00 col0;
             users_1 = percent u11 col1;
             overall_accuracy = percent (u00 + u11) grand;
             fscore_0 = fdiv (fdiv (fmul (Fin 2) (fmul users_0 producers_0))
                                   (fadd users_0 producers_0)) (Fin 100)
         in and_then (f1_score (map ACTUAL input_data) (map PREDICTION input_data)) (\<lambda>fscore_1.
            Inr \<lparr>producers0 = producers_0, producers1 = producers_1, users0 = users_0,
                  users1 = users_1, overall = overall_accuracy, fscore0 = fscore_0,
                  fscore1 = fscore_1\<rparr>)))))))))))))"

section \<open>Notions used to state the claims\<close>

text \<open>
  The six reflectance bands the classifier reads (blue, green, red, nir, swir1, swir2 under
  their Sentinel-2 names), a dataset that has all six at one shape, the value of a band
  at a position, and the dataset as \<open>wofs_classify\<close> leaves it (\<open>converted\<close>, with
  \<open>cast_to\<close> for one array). \<open>pixel_class ds t p\<close> is the class of the tree for the
  pixel at a position of a dataset whose bands are arrays of the dtype of its blue band;
  the classifier computes it on the converted dataset. \<open>s2_dataset\<close> builds a dataset as
  \<open>dc.load\<close> returns it, with the scene classification layer and the three coordinates;
  \<open>dry_scene\<close> is a scene of one dry pixel, \<open>threshold_scene\<close> a scene of one pixel
  whose index ndi_43 is 183097/300159, a little above the threshold 0.61.
\<close>

definition band_names :: "string list" where
  "band_names = [''B02'', ''B03'', ''B04'', ''B08'', ''B11'', ''B12'']"

definition has_bands :: "dataset \<Rightarrow> shape \<Rightarrow> bool" where
  "has_bands ds sh =
    list_all (\<lambda>n. case ds n of None \<Rightarrow> False | Some a \<Rightarrow> shape_of (vals a) = sh) band_names"

definition band :: "dataset \<Rightarrow> string \<Rightarrow> nat \<Rightarrow> nat \<Rightarrow> flt" where
  "band ds n t p = (case ds n of None \<Rightarrow> NaN | Some a \<Rightarrow> px (vals a) t p)"

definition working_dtype :: "dataset \<Rightarrow> np_dtype" where
  "working_dtype ds = (case ds ''B02'' of None \<Rightarrow> Float64 | Some blue \<Rightarrow> dtype blue)"

definition pixel_class :: "dataset \<Rightarrow> nat \<Rightarrow> nat \<Rightarrow> 8 word" where
  "pixel_class ds t p =
    tree_class (working_dtype ds)
      (pixel_features (working_dtype ds) (band ds ''B02'' t p) (band ds ''B03'' t p)
        (band ds ''B04'' t p) (band ds ''B08'' t p) (band ds ''B11'' t p) (band ds ''B12'' t p))"

definition cast_to :: "np_dtype option \<Rightarrow> ndarray \<Rightarrow> ndarray" where
  "cast_to target a = (case target of None \<Rightarrow> a | Some T \<Rightarrow> astype a T)"

definition converted :: "dataset \<Rightarrow> bool \<Rightarrow> dataset" where
  "converted ds enforce_float64 =
    (case ds ''B02'' of
       None \<Rightarrow> ds
     | Some blue \<Rightarrow>
        (case cast_target (dtype blue) enforce_float64 of
           None \<Rightarrow> ds
         | Some T \<Rightarrow> (\<lambda>n. if n \<in> set band_names then map_option (\<lambda>a. astype a T) (ds n) else ds n)))"

definition s2_dataset ::
  "np_dtype \<Rightarrow> flt grid \<Rightarrow> flt grid \<Rightarrow> flt grid \<Rightarrow> flt grid \<Rightarrow> flt grid \<Rightarrow> flt grid \<Rightarrow> flt grid
    \<Rightarrow> dataset" where
  "s2_dataset dt b02 b03 b04 b08 b11 b12 scl =
    map_of
      [(''B02'', \<lparr>dtype = dt, vals = b02\<rparr>), (''B03'', \<lparr>dtype = dt, vals = b03\<rparr>),
       (''B04'', \<lparr>dtype = dt, vals = b04\<rparr>), (''B08'', \<lparr>dtype = dt, vals = b08\<rparr>),
       (''B11'', \<lparr>dtype = dt, vals = b11\<rparr>), (''B12'', \<lparr>dtype = dt, vals = b12\<rparr>),
       (''SCL'', \<lparr>dtype = UInt8, vals = scl\<rparr>),
       (''x'', \<lparr>dtype = Float64, vals = []\<rparr>), (''y'', \<lparr>dtype = Float64, vals = []\<rparr>),
       (''time'', \<lparr>dtype = Int64, vals = []\<rparr>)]"

definition dry_scene :: dataset where
  "dry_scene = s2_dataset UInt16 [[Fin 200]] [[Fin 200]] [[Fin 200]] [[Fin 2000]] [[Fin 3000]]
     [[Fin 100]] [[Fin 4]]"

definition threshold_scene :: dataset where
  "threshold_scene = s2_dataset Int32 [[Fin 300]] [[Fin 500]] [[Fin 58531]] [[Fin 241628]]
     [[Fin 100]] [[Fin 50]] [[Fin 6]]"

text \<open>
  The words of the specification for the reduction over the scenes of a point-month: a
  scene is clear when every pixel of the footprint is classified 0 or 1, it shows water
  when some pixel is classified 1, \<open>clear_count\<close> is the number of clear scenes and
  \<open>wet\<close> holds when some clear scene shows water. \<open>wofls_of\<close> is the array the task
  gets from the classifier, \<open>task_input\<close> a response of the provider with the six
  bands, the scene classification layer and the coordinates at one shape, every scene
  with at least one pixel. \<open>n_scenes\<close> is the number of scenes of a response, and
  \<open>extends_scenes ds' ds\<close> says that the scenes of \<open>ds\<close> are the first scenes of
  \<open>ds'\<close>.
\<close>

definition scene_clear :: "flt list \<Rightarrow> bool" where
  "scene_clear footprint = (\<forall>v\<in>set footprint. v = Fin 0 \<or> v = Fin 1)"

definition scene_water :: "flt list \<Rightarrow> bool" where
  "scene_water footprint = (\<exists>v\<in>set footprint. v = Fin 1)"

definition clear_count :: "flt grid \<Rightarrow> nat" where
  "clear_count wofls = length (filter scene_clear wofls)"

definition wet_flag :: "flt grid \<Rightarrow> int" where
  "wet_flag wofls = (if \<exists>s\<in>set wofls. scene_clear s \<and> scene_water s then 1 else 0)"

definition wofls_of :: "dataset \<Rightarrow> flt grid" where
  "wofls_of ds =
    (case ds ''SCL'' of
       None \<Rightarrow> []
     | Some scl \<Rightarrow>
        (case wofs_classify ds (Some (isin (vals scl) [4, 5, 6, 7, 11])) ''x'' ''y'' ''time'' NaN
                False False of
           Inl e \<Rightarrow> []
         | Inr r \<Rightarrow> fst r))"

definition task_input :: "dataset \<Rightarrow> shape \<Rightarrow> bool" where
  "task_input ds sh =
    (has_bands ds sh
     \<and> (case ds ''SCL'' of None \<Rightarrow> False | Some scl \<Rightarrow> shape_of (vals scl) = sh)
     \<and> ds ''x'' \<noteq> None \<and> ds ''y'' \<noteq> None \<and> ds ''time'' \<noteq> None
     \<and> (\<forall>n\<in>set sh. 0 < n))"

definition point_key :: "int \<Rightarrow> int \<Rightarrow> string" where
  "point_key plot_id month = str_int plot_id @ ''_'' @ str_int month"

definition n_scenes :: "dataset \<Rightarrow> nat" where
  "n_scenes ds = (case ds ''B02'' of None \<Rightarrow> 0 | Some a \<Rightarrow> length (vals a))"

definition extends_scenes :: "dataset \<Rightarrow> dataset \<Rightarrow> bool" where
  "extends_scenes ds' ds =
    list_all
      (\<lambda>n. case ds n of
             None \<Rightarrow> False
           | Some a \<Rightarrow>
              (case ds' n of None \<Rightarrow> False | Some a' \<Rightarrow> take (length (vals a)) (vals a') = vals a))
      (''SCL'' # band_names)"

definition wet_scene :: dataset where
  "wet_scene = s2_dataset UInt16 [[Fin 300]] [[Fin 500]] [[Fin 400]] [[Fin 100]] [[Fin 100]]
     [[Fin 50]] [[Fin 6]]"

definition two_scenes :: dataset where
  "two_scenes = s2_dataset UInt16 [[Fin 300], [Fin 200]] [[Fin 500], [Fin 200]]
     [[Fin 400], [Fin 200]] [[Fin 100], [Fin 2000]] [[Fin 100], [Fin 3000]]
     [[Fin 50], [Fin 100]] [[Fin 6], [Fin 4]]"

text \<open>
  The words of the specification for the accuracy assessment: the rows of the season, the
  cells and the margins of the contingency table as counts of rows, and an accuracy as a
  share in percent. \<open>binary_table\<close> says that every ACTUAL and PREDICTION value is 0
  or 1, \<open>both_classes\<close> says that each of the classes 0 and 1 occurs among
  the ACTUAL values and among the PREDICTION values. \<open>scenario_table\<close> is the table of
  the scenario of the specification (40, 5, 3 and 52 rows of the four pairs, all in the
  season); \<open>mixed_table\<close> has two rows in the season and one outside.
\<close>

definition season_rows :: "obs list \<Rightarrow> int list \<Rightarrow> obs list" where
  "season_rows input_data months = filter (\<lambda>r. MONTH r \<in> set months) input_data"

definition pair_count :: "obs list \<Rightarrow> int \<Rightarrow> int \<Rightarrow> nat" where
  "pair_count rows a p = length (filter (\<lambda>r. ACTUAL r = a \<and> PREDICTION r = p) rows)"

definition row_total :: "obs list \<Rightarrow> int \<Rightarrow> nat" where
  "row_total rows a = length (filter (\<lambda>r. ACTUAL r = a) rows)"

definition col_total :: "obs list \<Rightarrow> int \<Rightarrow> nat" where
  "col_total rows p = length (filter (\<lambda>r. PREDICTION r = p) rows)"

definition accuracy :: "nat \<Rightarrow> nat \<Rightarrow> real" where
  "accuracy n d = real n / real d * 100"

definition binary_table :: "obs list \<Rightarrow> bool" where
  "binary_table rows =
    (\<forall>r\<in>set rows. (ACTUAL r = 0 \<or> ACTUAL r = 1) \<and> (PREDICTION r = 0 \<or> PREDICTION r = 1))"

definition both_classes :: "obs list \<Rightarrow> bool" where
  "both_classes rows =
    (0 \<in> set (map ACTUAL rows) \<and> 1 \<in> set (map ACTUAL rows)
     \<and> 0 \<in> set (map PREDICTION rows) \<and> 1 \<in> set (map PREDICTION rows))"

definition obs_rows :: "int \<Rightarrow> int \<Rightarrow> int \<Rightarrow> nat \<Rightarrow> obs list" where
  "obs_rows month a p n = replicate n \<lparr>PLOT_ID = 0, MONTH = month, ACTUAL = a, PREDICTION = p\<rparr>"

definition scenario_table :: "obs list" where
  "scenario_table = obs_rows 6 0 0 40 @ obs_rows 6 0 1 5 @ obs_rows 6 1 0 3 @ obs_rows 6 1 1 52"

definition mixed_table :: "obs list" where
  "mixed_table = obs_rows 6 0 0 1 @ obs_rows 6 1 1 1 @ obs_rows 1 1 0 1"

section \<open>Elementwise operations, position by position\<close>

lemma inside_gmap [simp]: "inside (gmap f g) t p = inside g t p"
  by (auto simp: inside_def gmap_def)

lemma px_gmap [simp]: "inside g t p \<Longrightarrow> px (gmap f g) t p = f (px g t p)"
  by (simp add: inside_def gmap_def px_def)

lemma inside_gzip [simp]: "inside (gzip f a b) t p = (inside a t p \<and> inside b t p)"
  by (auto simp: inside_def gzip_def)

lemma px_gzip [simp]:
  "inside a t p \<Longrightarrow> inside b t p \<Longrightarrow> px (gzip f a b) t p = f (px a t p) (px b t p)"
  by (simp add: inside_def gzip_def px_def)

lemma inside_full [simp]: "inside (full sh v) t p = (t < length sh \<and> p < sh ! t)"
  by (auto simp: inside_def full_def)

lemma px_full [simp]: "t < length sh \<Longrightarrow> p < sh ! t \<Longrightarrow> px (full sh v) t p = v"
  by (simp add: full_def px_def)

lemma inside_shape: "shape_of g = sh \<Longrightarrow> inside g t p = (t < length sh \<and> p < sh ! t)"
  by (auto simp: inside_def shape_of_def)

lemma shape_of_gmap [simp]: "shape_of (gmap f g) = shape_of g"
  by (simp add: shape_of_def gmap_def)

lemma shape_of_gzip [simp]: "shape_of a = shape_of b \<Longrightarrow> shape_of (gzip f a b) = shape_of a"
proof -
  assume h: "shape_of a = shape_of b"
  then have len: "length a = length b"
    unfolding shape_of_def by (rule map_eq_imp_length_eq)
  show ?thesis
  proof (rule nth_equalityI)
    show "length (shape_of (gzip f a b)) = length (shape_of a)"
      using len by (simp add: shape_of_def gzip_def)
  next
    fix i assume "i < length (shape_of (gzip f a b))"
    then have i: "i < length a" "i < length b"
      using len by (simp_all add: shape_of_def gzip_def)
    from h have "map length a ! i = map length b ! i"
      by (simp add: shape_of_def)
    with i have "length (a ! i) = length (b ! i)" by simp
    with i show "shape_of (gzip f a b) ! i = shape_of a ! i"
      by (simp add: shape_of_def gzip_def)
  qed
qed

lemma shape_of_full [simp]: "shape_of (full sh v) = sh"
  by (simp add: shape_of_def full_def map_idI)

lemma grid_eqI:
  assumes "shape_of a = shape_of b"
    and "\<And>t p. inside a t p \<Longrightarrow> px a t p = px b t p"
  shows "a = b"
proof (rule nth_equalityI)
  from assms(1) show len: "length a = length b"
    unfolding shape_of_def by (rule map_eq_imp_length_eq)
  fix t assume t: "t < length a"
  from assms(1) have "map length a ! t = map length b ! t"
    by (simp add: shape_of_def)
  with t len have rows: "length (a ! t) = length (b ! t)" by simp
  show "a ! t = b ! t"
  proof (rule nth_equalityI)
    show "length (a ! t) = length (b ! t)" by (rule rows)
  next
    fix p assume "p < length (a ! t)"
    with t have "inside a t p" by (simp add: inside_def)
    from assms(2) [OF this] show "a ! t ! p = b ! t ! p" by (simp add: px_def)
  qed
qed

subsection \<open>The leaves of the tree\<close>

lemma run_regression_leaves:
  "run_regression wd sh nd band1 band2 band3 band4 band5 band7 =
     foldl (\<lambda>c l. assign c (fst l) (snd l)) (full sh (uint8_of nd))
       (tree_leaves wd (band_ratio wd band5 band2) (band_ratio wd band4 band3)
          (band_ratio wd band7 band2)
          band1 band3 band7)"
  by (simp add: run_regression_def tree_leaves_def Let_def)

lemma tree_leaves_count: "length (tree_leaves wd n52 n43 n72 b1 b3 b7) = 23"
  by (simp add: tree_leaves_def Let_def)

lemma conds_at:
  assumes "inside n52 t p" "inside n43 t p" "inside n72 t p"
    "inside b1 t p" "inside b3 t p" "inside b7 t p"
  shows "map (\<lambda>l. (px (fst l) t p, snd l)) (tree_leaves wd n52 n43 n72 b1 b3 b7) =
    leaf_conds wd (px n52 t p, px n43 t p, px n72 t p, px b1 t p, px b3 t p, px b7 t p)"
  using assms
  by (simp add: tree_leaves_def leaf_conds_def Let_def gle_def gnot_def gand_def)

lemma conds_left:
  assumes "np_le wd n52 (- 0.01)"
  shows "map snd (filter fst (leaf_conds wd (n52, n43, n72, b1, b3, b7))) =
    [tree_class wd (n52, n43, n72, b1, b3, b7)]"
  using assms unfolding leaf_conds_def tree_class_def Let_def
  by (cases "np_le wd b1 2083.5"; simp split del: if_split;
      cases "np_le wd b7 323.5"; simp split del: if_split;
      cases "np_le wd n43 0.61"; simp split del: if_split;
      cases "np_le wd b1 1400.5"; simp split del: if_split;
      cases "np_le wd n43 (- 0.01)"; simp split del: if_split;
      cases "np_le wd n72 (- 0.23)"; simp split del: if_split;
      cases "np_le wd b1 379"; simp split del: if_split;
      cases "np_le wd n43 0.22"; simp split del: if_split;
      cases "np_le wd b1 473"; simp split del: if_split)

lemma conds_right_a:
  assumes "\<not> np_le wd n52 (- 0.01)" "np_le wd n52 0.23"
  shows "map snd (filter fst (leaf_conds wd (n52, n43, n72, b1, b3, b7))) =
    [tree_class wd (n52, n43, n72, b1, b3, b7)]"
  using assms unfolding leaf_conds_def tree_class_def Let_def
  by (cases "np_le wd b1 334.5"; simp split del: if_split;
      cases "np_le wd n43 0.54"; simp split del: if_split;
      cases "np_le wd n52 0.12"; simp split del: if_split;
      cases "np_le wd b3 364.5"; simp split del: if_split;
      cases "np_le wd b1 129.5"; simp split del: if_split;
      cases "np_le wd b1 300.5"; simp split del: if_split)

lemma conds_right_b:
  assumes "\<not> np_le wd n52 (- 0.01)" "\<not> np_le wd n52 0.23"
  shows "map snd (filter fst (leaf_conds wd (n52, n43, n72, b1, b3, b7))) =
    [tree_class wd (n52, n43, n72, b1, b3, b7)]"
  using assms unfolding leaf_conds_def tree_class_def Let_def
  by (cases "np_le wd n52 0.34"; simp split del: if_split;
      cases "np_le wd b1 249.5"; simp split del: if_split;
      cases "np_le wd n43 0.45"; simp split del: if_split;
      cases "np_le wd b3 364.5"; simp split del: if_split;
      cases "np_le wd b1 129.5"; simp split del: if_split)

lemma conds_one: "map snd (filter fst (leaf_conds wd x)) = [tree_class wd x]"
proof -
  obtain n52 n43 n72 b1 b3 b7 where x: "x = (n52, n43, n72, b1, b3, b7)"
    by (cases x) auto
  show ?thesis
  proof (cases "np_le wd n52 (- 0.01)")
    case True
    then show ?thesis unfolding x by (rule conds_left)
  next
    case left: False
    show ?thesis
    proof (cases "np_le wd n52 0.23")
      case True
      with left show ?thesis unfolding x by (rule conds_right_a)
    next
      case False
      with left show ?thesis unfolding x by (rule conds_right_b)
    qed
  qed
qed

lemma filter_tagged: "map snd (filter fst (map (\<lambda>l. (f l, snd l)) ls)) = map snd (filter f ls)"
  by (induction ls) auto

lemma leaves_at_tree:
  assumes "inside n52 t p" "inside n43 t p" "inside n72 t p"
    "inside b1 t p" "inside b3 t p" "inside b7 t p"
  shows "leaves_at (tree_leaves wd n52 n43 n72 b1 b3 b7) t p =
    [tree_class wd (px n52 t p, px n43 t p, px n72 t p, px b1 t p, px b3 t p, px b7 t p)]"
proof -
  have "leaves_at (tree_leaves wd n52 n43 n72 b1 b3 b7) t p =
      map snd (filter fst (map (\<lambda>l. (px (fst l) t p, snd l)) (tree_leaves wd n52 n43 n72 b1 b3 b7)))"
    unfolding leaves_at_def by (rule filter_tagged [symmetric])
  also have "\<dots> = map snd (filter fst
      (leaf_conds wd (px n52 t p, px n43 t p, px n72 t p, px b1 t p, px b3 t p, px b7 t p)))"
    by (simp only: conds_at [OF assms])
  finally show ?thesis by (simp only: conds_one)
qed

lemma tree_leaves_inside:
  assumes "inside n52 t p" "inside n43 t p" "inside n72 t p"
    "inside b1 t p" "inside b3 t p" "inside b7 t p"
  shows "\<forall>l\<in>set (tree_leaves wd n52 n43 n72 b1 b3 b7). inside (fst l) t p"
  using assms by (simp add: tree_leaves_def Let_def gle_def gnot_def gand_def)

lemma tree_leaves_shape:
  assumes "shape_of n52 = sh" "shape_of n43 = sh" "shape_of n72 = sh"
    "shape_of b1 = sh" "shape_of b3 = sh" "shape_of b7 = sh"
  shows "\<forall>l\<in>set (tree_leaves wd n52 n43 n72 b1 b3 b7). shape_of (fst l) = sh"
  using assms by (simp add: tree_leaves_def Let_def gle_def gnot_def gand_def)

subsection \<open>Masked assignment\<close>

lemma inside_assign [simp]: "inside (assign c m v) t p = (inside c t p \<and> inside m t p)"
  by (simp add: assign_def)

lemma px_assign [simp]:
  "inside c t p \<Longrightarrow> inside m t p \<Longrightarrow> px (assign c m v) t p = (if px m t p then v else px c t p)"
  by (simp add: assign_def)

lemma shape_of_assign [simp]: "shape_of c = shape_of m \<Longrightarrow> shape_of (assign c m v) = shape_of c"
  by (simp add: assign_def)

lemma px_foldl_assign:
  "inside c t p \<Longrightarrow> \<forall>l\<in>set ls. inside (fst l) t p \<Longrightarrow>
     inside (foldl (\<lambda>c l. assign c (fst l) (snd l)) c ls) t p \<and>
     px (foldl (\<lambda>c l. assign c (fst l) (snd l)) c ls) t p = last (px c t p # leaves_at ls t p)"
proof (induction ls arbitrary: c)
  case Nil
  then show ?case by (simp add: leaves_at_def)
next
  case (Cons l ls)
  have step: "inside (assign c (fst l) (snd l)) t p"
    using Cons.prems by simp
  have rest: "\<forall>l\<in>set ls. inside (fst l) t p"
    using Cons.prems by simp
  from Cons.IH [OF step rest] Cons.prems show ?case
    by (simp add: leaves_at_def)
qed

lemma shape_foldl_assign:
  "shape_of c = sh \<Longrightarrow> \<forall>l\<in>set ls. shape_of (fst l) = sh \<Longrightarrow>
     shape_of (foldl (\<lambda>c l. assign c (fst l) (snd l)) c ls) = sh"
  by (induction ls arbitrary: c) simp_all

subsection \<open>\<open>_run_regression\<close> at one pixel\<close>

lemma inside_band_ratio [simp]:
  "inside (band_ratio wd a b) t p = (inside a t p \<and> inside b t p)"
  by (auto simp: band_ratio_def)

lemma px_band_ratio [simp]:
  "inside a t p \<Longrightarrow> inside b t p \<Longrightarrow>
     px (band_ratio wd a b) t p = ratio wd (px a t p) (px b t p)"
  by (simp add: band_ratio_def ratio_def)

lemma shape_of_band_ratio [simp]:
  "shape_of a = shape_of b \<Longrightarrow> shape_of (band_ratio wd a b) = shape_of a"
  by (simp add: band_ratio_def)

lemma run_regression_px:
  assumes sh: "t < length sh" "p < sh ! t"
    and b: "inside band1 t p" "inside band2 t p" "inside band3 t p"
      "inside band4 t p" "inside band5 t p" "inside band7 t p"
  shows "px (run_regression wd sh nd band1 band2 band3 band4 band5 band7) t p =
      tree_class wd (pixel_features wd (px band1 t p) (px band2 t p) (px band3 t p)
        (px band4 t p) (px band5 t p) (px band7 t p))"
proof -
  let ?n52 = "band_ratio wd band5 band2" and ?n43 = "band_ratio wd band4 band3"
    and ?n72 = "band_ratio wd band7 band2"
  have i: "inside ?n52 t p" "inside ?n43 t p" "inside ?n72 t p"
    using b by simp_all
  have c: "inside (full sh (uint8_of nd)) t p"
    using sh by simp
  note fold = px_foldl_assign [OF c tree_leaves_inside [OF i b(1) b(3) b(6)]]
  show ?thesis
    using fold b
    by (simp add: run_regression_leaves leaves_at_tree [OF i b(1) b(3) b(6)] pixel_features_def)
qed

lemma run_regression_shape:
  assumes "shape_of band1 = sh" "shape_of band2 = sh" "shape_of band3 = sh"
    "shape_of band4 = sh" "shape_of band5 = sh" "shape_of band7 = sh"
  shows "shape_of (run_regression wd sh nd band1 band2 band3 band4 band5 band7) = sh"
proof -
  have r: "shape_of (band_ratio wd band5 band2) = sh" "shape_of (band_ratio wd band4 band3) = sh"
    "shape_of (band_ratio wd band7 band2) = sh"
    using assms by simp_all
  show ?thesis
    unfolding run_regression_leaves
    by (rule shape_foldl_assign [OF shape_of_full tree_leaves_shape [OF r assms(1) assms(3) assms(6)]])
qed

lemma run_regression_fill_irrelevant:
  assumes "shape_of band1 = sh" "shape_of band2 = sh" "shape_of band3 = sh"
    "shape_of band4 = sh" "shape_of band5 = sh" "shape_of band7 = sh"
  shows "run_regression wd sh nd band1 band2 band3 band4 band5 band7 =
    run_regression wd sh nd' band1 band2 band3 band4 band5 band7"
proof (rule grid_eqI)
  show "shape_of (run_regression wd sh nd band1 band2 band3 band4 band5 band7) =
      shape_of (run_regression wd sh nd' band1 band2 band3 band4 band5 band7)"
    by (simp only: run_regression_shape [OF assms])
next
  fix t p
  assume "inside (run_regression wd sh nd band1 band2 band3 band4 band5 band7) t p"
  then have tp: "t < length sh" "p < sh ! t"
    by (simp_all add: inside_shape [OF run_regression_shape [OF assms]])
  then have b: "inside band1 t p" "inside band2 t p" "inside band3 t p"
      "inside band4 t p" "inside band5 t p" "inside band7 t p"
    by (simp_all add: inside_shape [OF assms(1)] inside_shape [OF assms(2)]
        inside_shape [OF assms(3)] inside_shape [OF assms(4)] inside_shape [OF assms(5)]
        inside_shape [OF assms(6)])
  show "px (run_regression wd sh nd band1 band2 band3 band4 band5 band7) t p =
      px (run_regression wd sh nd' band1 band2 band3 band4 band5 band7) t p"
    by (simp only: run_regression_px [OF tp b])
qed

lemma tree_class_01: "tree_class wd x = 0 \<or> tree_class wd x = 1"
  by (cases x) (simp add: tree_class_def)

lemma round_to_not_NaN: "round_to T x \<noteq> NaN"
  by (simp add: round_to_def Let_def)

lemma scalar_not_NaN: "scalar T c \<noteq> NaN"
  unfolding scalar_def
  by (cases "round_to Float64 c") (simp_all add: round_to_not_NaN)

lemma gt_flt_le_flt: "a \<noteq> NaN \<Longrightarrow> b \<noteq> NaN \<Longrightarrow> gt_flt a b = (\<not> le_flt a b)"
  by (cases a; cases b) auto

lemma np_gt_np_le: "x \<noteq> NaN \<Longrightarrow> np_gt T x c = (\<not> np_le T x c)"
  by (simp add: np_gt_def np_le_def gt_flt_le_flt scalar_not_NaN)

lemma tree_class_table:
  assumes "n52 \<noteq> NaN" "n43 \<noteq> NaN" "n72 \<noteq> NaN" "b1 \<noteq> NaN" "b3 \<noteq> NaN"
  shows "spec_table (np_le wd) (np_gt wd) (n52, n43, n72, b1, b3, b7) =
    Some (unat (tree_class wd (n52, n43, n72, b1, b3, b7)))"
  using assms
  by (simp add: spec_table_def tree_class_def left_rules_def right_a_rules_def right_b_rules_def
      np_gt_np_le)

section \<open>Rounded values\<close>

text \<open>
  The values of \<open>round_to\<close> at the numbers of the examples below. \<open>round_to_eval\<close>
  gives a rounding from the exponent \<open>e\<close> of the number, which the search of
  \<open>exponent\<close> finds (\<open>exponent_from_eq\<close>), and the rounded significand \<open>m\<close>.
\<close>

lemma pow2_powr: "pow2 k = 2 powr (of_int k)"
  by (simp add: pow2_def powr_real_of_int inverse_eq_divide)

lemma pow2_less: "(pow2 a < pow2 b) = (a < b)"
  by (simp add: pow2_powr)

lemma exponent_from_eq:
  assumes "pow2 e \<le> x" "x < pow2 (e + 1)" "\<bar>e - e0\<bar> \<le> int n"
  shows "exponent_from n e0 x = e"
  using assms(3)
proof (induction n arbitrary: e0)
  case 0
  then show ?case by simp
next
  case (Suc n)
  show ?case
  proof (cases "pow2 (e0 + 1) \<le> x")
    case True
    with assms(2) have "pow2 (e0 + 1) < pow2 (e + 1)" by linarith
    then have "e0 < e" by (simp add: pow2_less)
    with Suc.prems have "\<bar>e - (e0 + 1)\<bar> \<le> int n" by simp
    from Suc.IH [OF this] True show ?thesis by simp
  next
    case up: False
    show ?thesis
    proof (cases "x < pow2 e0")
      case True
      with assms(1) have "pow2 e < pow2 e0" by linarith
      then have "e < e0" by (simp add: pow2_less)
      with Suc.prems have "\<bar>e - (e0 - 1)\<bar> \<le> int n" by simp
      from Suc.IH [OF this] True up show ?thesis by simp
    next
      case False
      with assms(2) have "pow2 e0 < pow2 (e + 1)" by linarith
      then have a: "e0 \<le> e" by (simp add: pow2_less)
      from up assms(1) have "pow2 e < pow2 (e0 + 1)" by linarith
      then have "e \<le> e0" by (simp add: pow2_less)
      with a up False show ?thesis by simp
    qed
  qed
qed

lemma round_to_eval:
  assumes "T = Float32 \<or> T = Float64"
    and "pow2 e \<le> \<bar>x\<bar>" "\<bar>x\<bar> < pow2 (e + 1)" "emin T \<le> e" "e \<le> emax T"
    and "round_half_even (x / pow2 (e - precision T + 1)) = m"
    and "\<bar>of_int m * pow2 (e - precision T + 1)\<bar> < pow2 (emax T + 1)"
  shows "round_to T x = Fin (of_int m * pow2 (e - precision T + 1))"
proof -
  have "0 < pow2 e" by (simp add: pow2_def)
  with assms(2) have x: "x \<noteq> 0" by auto
  have "\<bar>e - 0\<bar> \<le> int (nat (emax T + 1))"
    using assms(1,4,5) by (auto simp: emin_def emax_def)
  from exponent_from_eq [OF assms(2,3) this] have e: "exponent T x = e"
    using assms(4) by (simp add: exponent_def)
  show ?thesis
    using assms(1,6,7) x unfolding round_to_def e Let_def by auto
qed

text \<open>The band values of the examples are elements of \<open>float32\<close>.\<close>

lemma float32_band_values:
  "round_to Float32 50 = Fin 50"
  "round_to Float32 100 = Fin 100"
  "round_to Float32 200 = Fin 200"
  "round_to Float32 300 = Fin 300"
  "round_to Float32 400 = Fin 400"
  "round_to Float32 500 = Fin 500"
  "round_to Float32 2000 = Fin 2000"
  "round_to Float32 3000 = Fin 3000"
  "round_to Float32 58531 = Fin 58531"
  "round_to Float32 241628 = Fin 241628"
proof -
  show "round_to Float32 50 = Fin 50"
    using round_to_eval [of Float32 5 "50" 13107200]
    by (simp add: pow2_def precision_def emin_def emax_def round_half_even_def)
  show "round_to Float32 100 = Fin 100"
    using round_to_eval [of Float32 6 "100" 13107200]
    by (simp add: pow2_def precision_def emin_def emax_def round_half_even_def)
  show "round_to Float32 200 = Fin 200"
    using round_to_eval [of Float32 7 "200" 13107200]
    by (simp add: pow2_def precision_def emin_def emax_def round_half_even_def)
  show "round_to Float32 300 = Fin 300"
    using round_to_eval [of Float32 8 "300" 9830400]
    by (simp add: pow2_def precision_def emin_def emax_def round_half_even_def)
  show "round_to Float32 400 = Fin 400"
    using round_to_eval [of Float32 8 "400" 13107200]
    by (simp add: pow2_def precision_def emin_def emax_def round_half_even_def)
  show "round_to Float32 500 = Fin 500"
    using round_to_eval [of Float32 8 "500" 16384000]
    by (simp add: pow2_def precision_def emin_def emax_def round_half_even_def)
  show "round_to Float32 2000 = Fin 2000"
    using round_to_eval [of Float32 10 "2000" 16384000]
    by (simp add: pow2_def precision_def emin_def emax_def round_half_even_def)
  show "round_to Float32 3000 = Fin 3000"
    using round_to_eval [of Float32 11 "3000" 12288000]
    by (simp add: pow2_def precision_def emin_def emax_def round_half_even_def)
  show "round_to Float32 58531 = Fin 58531"
    using round_to_eval [of Float32 15 "58531" 14983936]
    by (simp add: pow2_def precision_def emin_def emax_def round_half_even_def)
  show "round_to Float32 241628 = Fin 241628"
    using round_to_eval [of Float32 17 "241628" 15464192]
    by (simp add: pow2_def precision_def emin_def emax_def round_half_even_def)
qed

text \<open>Their sums and differences are, too.\<close>

lemma float32_sums:
  "round_to Float32 (- 400) = Fin (- 400)"
  "round_to Float32 600 = Fin 600"
  "round_to Float32 (- 300) = Fin (- 300)"
  "round_to Float32 (- 450) = Fin (- 450)"
  "round_to Float32 550 = Fin 550"
  "round_to Float32 2800 = Fin 2800"
  "round_to Float32 3200 = Fin 3200"
  "round_to Float32 183097 = Fin 183097"
  "round_to Float32 300159 = Fin 300159"
proof -
  show "round_to Float32 (- 400) = Fin (- 400)"
    using round_to_eval [of Float32 8 "- 400" "- 13107200"]
    by (simp add: pow2_def precision_def emin_def emax_def round_half_even_def)
  show "round_to Float32 600 = Fin 600"
    using round_to_eval [of Float32 9 "600" 9830400]
    by (simp add: pow2_def precision_def emin_def emax_def round_half_even_def)
  show "round_to Float32 (- 300) = Fin (- 300)"
    using round_to_eval [of Float32 8 "- 300" "- 9830400"]
    by (simp add: pow2_def precision_def emin_def emax_def round_half_even_def)
  show "round_to Float32 (- 450) = Fin (- 450)"
    using round_to_eval [of Float32 8 "- 450" "- 14745600"]
    by (simp add: pow2_def precision_def emin_def emax_def round_half_even_def)
  show "round_to Float32 550 = Fin 550"
    using round_to_eval [of Float32 9 "550" 9011200]
    by (simp add: pow2_def precision_def emin_def emax_def round_half_even_def)
  show "round_to Float32 2800 = Fin 2800"
    using round_to_eval [of Float32 11 "2800" 11468800]
    by (simp add: pow2_def precision_def emin_def emax_def round_half_even_def)
  show "round_to Float32 3200 = Fin 3200"
    using round_to_eval [of Float32 11 "3200" 13107200]
    by (simp add: pow2_def precision_def emin_def emax_def round_half_even_def)
  show "round_to Float32 183097 = Fin 183097"
    using round_to_eval [of Float32 17 "183097" 11718208]
    by (simp add: pow2_def precision_def emin_def emax_def round_half_even_def)
  show "round_to Float32 300159 = Fin 300159"
    using round_to_eval [of Float32 18 "300159" 9605088]
    by (simp add: pow2_def precision_def emin_def emax_def round_half_even_def)
qed

text \<open>The quotients, rounded to \<open>float32\<close>.\<close>

lemma float32_ratios:
  "round_to Float32 (- (2 / 3)) = Fin (- (11184811 / 16777216))"
  "round_to Float32 (- (3 / 5)) = Fin (- (5033165 / 8388608))"
  "round_to Float32 (- (9 / 11)) = Fin (- (13726813 / 16777216))"
  "round_to Float32 (7 / 8) = Fin (7 / 8)"
  "round_to Float32 (183097 / 300159) = Fin (5117051 / 8388608)"
proof -
  show "round_to Float32 (- (2 / 3)) = Fin (- (11184811 / 16777216))"
    using round_to_eval [of Float32 "- 1" "- (2 / 3)" "- 11184811"]
    by (simp add: pow2_def precision_def emin_def emax_def round_half_even_def)
  show "round_to Float32 (- (3 / 5)) = Fin (- (5033165 / 8388608))"
    using round_to_eval [of Float32 "- 1" "- (3 / 5)" "- 10066330"]
    by (simp add: pow2_def precision_def emin_def emax_def round_half_even_def)
  show "round_to Float32 (- (9 / 11)) = Fin (- (13726813 / 16777216))"
    using round_to_eval [of Float32 "- 1" "- (9 / 11)" "- 13726813"]
    by (simp add: pow2_def precision_def emin_def emax_def round_half_even_def)
  show "round_to Float32 (7 / 8) = Fin (7 / 8)"
    using round_to_eval [of Float32 "- 1" "7 / 8" 14680064]
    by (simp add: pow2_def precision_def emin_def emax_def round_half_even_def)
  show "round_to Float32 (183097 / 300159) = Fin (5117051 / 8388608)"
    using round_to_eval [of Float32 "- 1" "183097 / 300159" 10234102]
    by (simp add: pow2_def precision_def emin_def emax_def round_half_even_def)
qed

text \<open>The constants of the tests as Python floats.\<close>

lemma float64_constants:
  "round_to Float64 (- (1 / 100)) = Fin (- (5764607523034235 / 576460752303423488))"
  "round_to Float64 (4167 / 2) = Fin (4167 / 2)"
  "round_to Float64 (647 / 2) = Fin (647 / 2)"
  "round_to Float64 (61 / 100) = Fin (5494391545392005 / 9007199254740992)"
  "round_to Float64 (23 / 100) = Fin (8286623314361713 / 36028797018963968)"
  "round_to Float64 (17 / 50) = Fin (6124895493223875 / 18014398509481984)"
proof -
  show "round_to Float64 (- (1 / 100)) = Fin (- (5764607523034235 / 576460752303423488))"
    using round_to_eval [of Float64 "- 7" "- (1 / 100)" "- 5764607523034235"]
    by (simp add: pow2_def precision_def emin_def emax_def round_half_even_def)
  show "round_to Float64 (4167 / 2) = Fin (4167 / 2)"
    using round_to_eval [of Float64 11 "4167 / 2" 4581664952942592]
    by (simp add: pow2_def precision_def emin_def emax_def round_half_even_def)
  show "round_to Float64 (647 / 2) = Fin (647 / 2)"
    using round_to_eval [of Float64 8 "647 / 2" 5691072185368576]
    by (simp add: pow2_def precision_def emin_def emax_def round_half_even_def)
  show "round_to Float64 (61 / 100) = Fin (5494391545392005 / 9007199254740992)"
    using round_to_eval [of Float64 "- 1" "61 / 100" 5494391545392005]
    by (simp add: pow2_def precision_def emin_def emax_def round_half_even_def)
  show "round_to Float64 (23 / 100) = Fin (8286623314361713 / 36028797018963968)"
    using round_to_eval [of Float64 "- 3" "23 / 100" 8286623314361713]
    by (simp add: pow2_def precision_def emin_def emax_def round_half_even_def)
  show "round_to Float64 (17 / 50) = Fin (6124895493223875 / 18014398509481984)"
    using round_to_eval [of Float64 "- 2" "17 / 50" 6124895493223875]
    by (simp add: pow2_def precision_def emin_def emax_def round_half_even_def)
qed

text \<open>The same constants, converted to \<open>float32\<close>.\<close>

lemma float32_constants:
  "round_to Float32 (4167 / 2) = Fin (4167 / 2)"
  "round_to Float32 (647 / 2) = Fin (647 / 2)"
  "round_to Float32 (- (5764607523034235 / 576460752303423488)) = Fin (- (5368709 / 536870912))"
  "round_to Float32 (5494391545392005 / 9007199254740992) = Fin (5117051 / 8388608)"
  "round_to Float32 (8286623314361713 / 36028797018963968) = Fin (15435039 / 67108864)"
  "round_to Float32 (6124895493223875 / 18014398509481984) = Fin (11408507 / 33554432)"
proof -
  show "round_to Float32 (4167 / 2) = Fin (4167 / 2)"
    using round_to_eval [of Float32 11 "4167 / 2" 8534016]
    by (simp add: pow2_def precision_def emin_def emax_def round_half_even_def)
  show "round_to Float32 (647 / 2) = Fin (647 / 2)"
    using round_to_eval [of Float32 8 "647 / 2" 10600448]
    by (simp add: pow2_def precision_def emin_def emax_def round_half_even_def)
  show "round_to Float32 (- (5764607523034235 / 576460752303423488)) = Fin (- (5368709 / 536870912))"
    using round_to_eval [of Float32 "- 7" "- (5764607523034235 / 576460752303423488)" "- 10737418"]
    by (simp add: pow2_def precision_def emin_def emax_def round_half_even_def)
  show "round_to Float32 (5494391545392005 / 9007199254740992) = Fin (5117051 / 8388608)"
    using round_to_eval [of Float32 "- 1" "5494391545392005 / 9007199254740992" 10234102]
    by (simp add: pow2_def precision_def emin_def emax_def round_half_even_def)
  show "round_to Float32 (8286623314361713 / 36028797018963968) = Fin (15435039 / 67108864)"
    using round_to_eval [of Float32 "- 3" "8286623314361713 / 36028797018963968" 15435039]
    by (simp add: pow2_def precision_def emin_def emax_def round_half_even_def)
  show "round_to Float32 (6124895493223875 / 18014398509481984) = Fin (11408507 / 33554432)"
    using round_to_eval [of Float32 "- 2" "6124895493223875 / 18014398509481984" 11408507]
    by (simp add: pow2_def precision_def emin_def emax_def round_half_even_def)
qed

lemma float32_scalars:
  "scalar Float32 (- 0.01) = Fin (- (5368709 / 536870912))"
  "scalar Float32 2083.5 = Fin (4167 / 2)"
  "scalar Float32 323.5 = Fin (647 / 2)"
  "scalar Float32 0.61 = Fin (5117051 / 8388608)"
  "scalar Float32 0.23 = Fin (15435039 / 67108864)"
  "scalar Float32 0.34 = Fin (11408507 / 33554432)"
  using float64_constants float32_constants by (simp_all add: scalar_def)

text \<open>
  The features and the class of the three pixels of the examples, in \<open>float32\<close>: a
  pixel of water, a dry pixel, and a pixel whose index ndi_43 is 183097/300159, a little
  above 0.61. Neither 0.61 nor that quotient is an element of \<open>float32\<close>, and both round
  to the same element, 5117051/8388608.
\<close>

lemma wet_pixel_features:
  "pixel_features Float32 (Fin 300) (Fin 500) (Fin 400) (Fin 100) (Fin 100) (Fin 50) =
     (Fin (- (11184811 / 16777216)), Fin (- (5033165 / 8388608)), Fin (- (13726813 / 16777216)),
      Fin 300, Fin 400, Fin 50)"
  using float32_band_values float32_sums float32_ratios
  by (simp add: pixel_features_def ratio_def np_sub_def np_add_def np_div_def fsub_def)

lemma wet_pixel_class:
  "tree_class Float32 (Fin (- (11184811 / 16777216)), Fin (- (5033165 / 8388608)), n72,
     Fin 300, b3, Fin 50) = 1"
  using float32_scalars by (simp add: tree_class_def np_le_def)

lemma dry_pixel_ratio: "ratio Float32 (Fin 3000) (Fin 200) = Fin (7 / 8)"
  using float32_sums float32_ratios
  by (simp add: ratio_def np_sub_def np_add_def np_div_def fsub_def)

lemma dry_pixel_class: "tree_class Float32 (Fin (7 / 8), n43, n72, b1, b3, b7) = 0"
  using float32_scalars by (simp add: tree_class_def np_le_def)

lemma threshold_pixel_features:
  "pixel_features Float32 (Fin 300) (Fin 500) (Fin 58531) (Fin 241628) (Fin 100) (Fin 50) =
     (Fin (- (11184811 / 16777216)), Fin (5117051 / 8388608), Fin (- (13726813 / 16777216)),
      Fin 300, Fin 58531, Fin 50)"
  using float32_sums float32_ratios
  by (simp add: pixel_features_def ratio_def np_sub_def np_add_def np_div_def fsub_def)

lemma threshold_pixel_class:
  "tree_class Float32 (Fin (- (11184811 / 16777216)), Fin (5117051 / 8388608), n72,
     Fin 300, b3, Fin 50) = 1"
  using float32_scalars by (simp add: tree_class_def np_le_def)

section \<open>The claims about the regression tree\<close>

text \<open>
  Claim C8. At every position of the arrays, whatever the values of the three indices and
  of the bands there (NaN and the infinities included) and whatever the dtype of the
  arrays, exactly one of the leaf masks of \<open>_run_regression\<close> holds: the masks are
  pairwise exclusive and together exhaustive. The source has 22 tests (\<open>r1\<close> to \<open>r22\<close>)
  and 23 masked assignments (\<open>tree_leaves_count\<close>); the theorem is about all 23.
\<close>

theorem exactly_one_leaf:
  assumes "inside ndi_52 t p" "inside ndi_43 t p" "inside ndi_72 t p"
    "inside band1 t p" "inside band3 t p" "inside band7 t p"
  shows "length (filter (\<lambda>l. px (fst l) t p)
           (tree_leaves wd ndi_52 ndi_43 ndi_72 band1 band3 band7)) = 1"
proof -
  have "length (leaves_at (tree_leaves wd ndi_52 ndi_43 ndi_72 band1 band3 band7) t p) = 1"
    by (simp only: leaves_at_tree [OF assms]) simp
  then show ?thesis by (simp add: leaves_at_def)
qed

theorem exactly_one_leaf_witness:
  "length (filter (\<lambda>l. px (fst l) 0 0)
     (tree_leaves Float32 [[Fin (- 2 / 3)]] [[NaN]] [[PInf]] [[Fin 300]] [[Fin 400]]
        [[Fin 50]])) = 1"
  using exactly_one_leaf [of "[[Fin (- 2 / 3)]]" 0 0 "[[NaN]]" "[[PInf]]" "[[Fin 300]]"
      "[[Fin 400]]" "[[Fin 50]]" Float32]
  by (simp add: inside_def)

text \<open>
  Claim C1, as the code has it. For every pixel whose five decision features (ndi_52,
  ndi_43, ndi_72, the blue band b1 and the red band b3), computed in the dtype \<open>wd\<close> of
  the band arrays, are not NaN, the class that \<open>_run_regression\<close> leaves in
  \<open>classified\<close> is the class of the decision table of the specification read with the
  comparisons of that dtype: every threshold is the listed constant converted to \<open>wd\<close>.
  The table has a matching rule, and its class is the one the code assigns. The value of
  the swir2 band b7 is not restricted.

  With every threshold exactly as listed the table gives another class for some pixels
  (\<open>float32_threshold_differs\<close>, below with the claims about \<open>wofs_classify\<close>): for the
  bands 300, 500, 58531, 241628, 100 and 50, in \<open>float32\<close> arrays or in \<open>int32\<close> arrays
  that \<open>wofs_classify\<close> converts, the code assigns class 1, because the index ndi_43 it
  computes is the element of \<open>float32\<close> that the constant 0.61 is converted to; that
  element is greater than 0.61, and so is the quotient 183097/300159 itself, so the table
  with the threshold 0.61 gives class 0, on the features the code computes and on the
  ratios as real numbers alike.
\<close>

theorem tree_matches_table:
  assumes "shape_of band1 = sh" "shape_of band2 = sh" "shape_of band3 = sh"
    "shape_of band4 = sh" "shape_of band5 = sh" "shape_of band7 = sh"
    and "t < length sh" "p < sh ! t"
    and "pixel_features wd (px band1 t p) (px band2 t p) (px band3 t p)
           (px band4 t p) (px band5 t p) (px band7 t p) = (ndi_52, ndi_43, ndi_72, b1, b3, b7)"
    and "ndi_52 \<noteq> NaN" "ndi_43 \<noteq> NaN" "ndi_72 \<noteq> NaN" "b1 \<noteq> NaN" "b3 \<noteq> NaN"
  shows "spec_table (np_le wd) (np_gt wd) (ndi_52, ndi_43, ndi_72, b1, b3, b7) =
    Some (unat (px (run_regression wd sh no_data band1 band2 band3 band4 band5 band7) t p))"
proof -
  have b: "inside band1 t p" "inside band2 t p" "inside band3 t p"
      "inside band4 t p" "inside band5 t p" "inside band7 t p"
    using assms(7,8)
    by (simp_all add: inside_shape [OF assms(1)] inside_shape [OF assms(2)]
        inside_shape [OF assms(3)] inside_shape [OF assms(4)] inside_shape [OF assms(5)]
        inside_shape [OF assms(6)])
  show ?thesis
    by (simp only: run_regression_px [OF assms(7,8) b] assms(9)
        tree_class_table [OF assms(10-14)])
qed

theorem tree_matches_table_witness:
  "spec_table (np_le Float32) (np_gt Float32)
     (Fin (- (11184811 / 16777216)), Fin (- (5033165 / 8388608)), Fin (- (13726813 / 16777216)),
      Fin 300, Fin 400, Fin 50) =
     Some (unat (px (run_regression Float32 [1] NaN [[Fin 300]] [[Fin 500]] [[Fin 400]]
       [[Fin 100]] [[Fin 100]] [[Fin 50]]) 0 0))
   \<and> px (run_regression Float32 [1] NaN [[Fin 300]] [[Fin 500]] [[Fin 400]]
       [[Fin 100]] [[Fin 100]] [[Fin 50]]) 0 0 = 1"
proof -
  have f: "pixel_features Float32 (px [[Fin 300]] 0 0) (px [[Fin 500]] 0 0) (px [[Fin 400]] 0 0)
      (px [[Fin 100]] 0 0) (px [[Fin 100]] 0 0) (px [[Fin 50]] 0 0) =
      (Fin (- (11184811 / 16777216)), Fin (- (5033165 / 8388608)), Fin (- (13726813 / 16777216)),
       Fin 300, Fin 400, Fin 50)"
    by (simp add: px_def wet_pixel_features)
  have s: "shape_of [[Fin 300]] = [1]" "shape_of [[Fin 500]] = [1]" "shape_of [[Fin 400]] = [1]"
    "shape_of [[Fin 100]] = [1]" "shape_of [[Fin 50]] = [1]"
    by (simp_all add: shape_of_def)
  have i: "inside [[Fin 300]] 0 0" "inside [[Fin 500]] 0 0" "inside [[Fin 400]] 0 0"
    "inside [[Fin 100]] 0 0" "inside [[Fin 50]] 0 0"
    by (simp_all add: inside_def)
  have c: "px (run_regression Float32 [1] NaN [[Fin 300]] [[Fin 500]] [[Fin 400]]
       [[Fin 100]] [[Fin 100]] [[Fin 50]]) 0 0 = 1"
    using run_regression_px [of 0 "[1]" 0 "[[Fin 300]]" "[[Fin 500]]" "[[Fin 400]]"
        "[[Fin 100]]" "[[Fin 100]]" "[[Fin 50]]" Float32 NaN] i
    by (simp add: f wet_pixel_class)
  from tree_matches_table [OF s(1) s(2) s(3) s(4) s(4) s(5) _ _ f, where no_data = NaN] c
  show ?thesis by simp
qed

section \<open>Properties of \<open>wofs_classify\<close>\<close>

lemma and_then_Inl [simp]: "and_then (Inl e) f = Inl e"
  by (simp add: and_then_def)

lemma and_then_Inr [simp]: "and_then (Inr v) f = f v"
  by (simp add: and_then_def)

lemma inside_copy_masked [simp]:
  "inside (copy_masked dst m src) t p = (inside dst t p \<and> inside m t p \<and> inside src t p)"
  by (simp add: copy_masked_def)

lemma px_copy_masked [simp]:
  "inside dst t p \<Longrightarrow> inside m t p \<Longrightarrow> inside src t p \<Longrightarrow>
     px (copy_masked dst m src) t p = (if px m t p then float_of_uint8 (px src t p) else px dst t p)"
  by (simp add: copy_masked_def)

lemma shape_of_copy_masked [simp]:
  "shape_of dst = sh \<Longrightarrow> shape_of m = sh \<Longrightarrow> shape_of src = sh \<Longrightarrow>
     shape_of (copy_masked dst m src) = sh"
  by (simp add: copy_masked_def)

lemma has_bands_obtain:
  assumes "has_bands ds sh"
  obtains a1 a2 a3 a4 a5 a6 where
    "ds ''B02'' = Some a1" "ds ''B03'' = Some a2" "ds ''B04'' = Some a3"
    "ds ''B08'' = Some a4" "ds ''B11'' = Some a5" "ds ''B12'' = Some a6"
    "shape_of (vals a1) = sh" "shape_of (vals a2) = sh" "shape_of (vals a3) = sh"
    "shape_of (vals a4) = sh" "shape_of (vals a5) = sh" "shape_of (vals a6) = sh"
  using assms by (auto simp: has_bands_def band_names_def split: option.splits)

lemma dtype_astype [simp]: "dtype (astype a T) = T"
  by (simp add: astype_def)

lemma vals_astype [simp]: "vals (astype a T) = gmap (rnd T) (vals a)"
  by (simp add: astype_def)

lemma shape_cast_to [simp]: "shape_of (vals (cast_to tg a)) = shape_of (vals a)"
  by (cases tg) (simp_all add: cast_to_def)

lemma converted_keeps:
  assumes "ds k \<noteq> None"
  shows "getitem (converted ds ef) k = Inr (the (converted ds ef k))"
proof -
  have "converted ds ef k \<noteq> None"
    using assms by (auto simp: converted_def split: option.splits)
  then show ?thesis by (auto simp: getitem_def)
qed

lemma converted_band:
  assumes "ds ''B02'' = Some a1" "n \<in> set band_names" "ds n = Some a"
  shows "converted ds ef n = Some (cast_to (cast_target (dtype a1) ef) a)"
  using assms by (auto simp: converted_def cast_to_def split: option.splits)

lemma wofs_classify_eq:
  assumes b: "ds ''B02'' = Some a1" "ds ''B03'' = Some a2" "ds ''B04'' = Some a3"
      "ds ''B08'' = Some a4" "ds ''B11'' = Some a5" "ds ''B12'' = Some a6"
    and s: "shape_of (vals a1) = sh" "shape_of (vals a2) = sh" "shape_of (vals a3) = sh"
      "shape_of (vals a4) = sh" "shape_of (vals a5) = sh" "shape_of (vals a6) = sh"
    and m: "shape_of msk = sh"
    and c: "ds xc \<noteq> None" "ds yc \<noteq> None" "ds tc \<noteq> None"
    and tg: "tg = cast_target (dtype a1) ef"
  shows "wofs_classify ds (Some msk) xc yc tc nd False ef =
    Inr (copy_masked (full sh nd) msk
           (run_regression (dtype (cast_to tg a1)) sh nd (vals (cast_to tg a1))
              (vals (cast_to tg a2)) (vals (cast_to tg a3)) (vals (cast_to tg a4))
              (vals (cast_to tg a5)) (vals (cast_to tg a6))),
         converted ds ef)"
proof -
  define D where "D = converted ds ef"
  have gx: "getitem D xc = Inr (the (D xc))" and gy: "getitem D yc = Inr (the (D yc))"
    and gt: "getitem D tc = Inr (the (D tc))"
    unfolding D_def using c by (simp_all add: converted_keeps)
  have s': "shape_of (vals (cast_to tg a1)) = sh" "shape_of (vals (cast_to tg a2)) = sh"
    "shape_of (vals (cast_to tg a3)) = sh" "shape_of (vals (cast_to tg a4)) = sh"
    "shape_of (vals (cast_to tg a5)) = sh" "shape_of (vals (cast_to tg a6)) = sh"
    using s by simp_all
  have rs: "shape_of (run_regression (dtype (cast_to tg a1)) sh nd (vals (cast_to tg a1))
      (vals (cast_to tg a2)) (vals (cast_to tg a3)) (vals (cast_to tg a4))
      (vals (cast_to tg a5)) (vals (cast_to tg a6))) = sh"
    by (rule run_regression_shape [OF s'])
  show ?thesis
  proof (cases "cast_target (dtype a1) ef")
    case None
    have conv: "D = ds"
      using b(1) None by (simp add: converted_def D_def)
    have id: "cast_to tg a = a" for a
      using None tg by (simp add: cast_to_def)
    show ?thesis
      using b s m None rs gx gy gt
      by (simp add: wofs_classify_def default_clean_mask_def getattr_def Let_def conv id
          D_def [symmetric])
  next
    case (Some T)
    have conv: "ds(''B02'' \<mapsto> astype a1 T, ''B03'' \<mapsto> astype a2 T, ''B04'' \<mapsto> astype a3 T,
         ''B08'' \<mapsto> astype a4 T, ''B11'' \<mapsto> astype a5 T, ''B12'' \<mapsto> astype a6 T) = D"
      using b Some by (auto simp: converted_def band_names_def D_def)
    have ct: "cast_to tg a = astype a T" for a
      using Some tg by (simp add: cast_to_def)
    have s'': "shape_of (gmap (rnd T) (vals a1)) = sh"
      using s(1) by simp
    show ?thesis
      using b s m Some rs gx gy gt s''
      by (simp add: wofs_classify_def default_clean_mask_def getattr_def Let_def conv ct
          D_def [symmetric])
  qed
qed

lemma wofs_classify_ok:
  assumes "has_bands ds sh" "shape_of msk = sh"
    and "ds xc \<noteq> None" "ds yc \<noteq> None" "ds tc \<noteq> None"
  shows "\<exists>out. wofs_classify ds (Some msk) xc yc tc nd False ef = Inr (out, converted ds ef)
    \<and> shape_of out = sh
    \<and> (\<forall>t p. t < length sh \<and> p < sh ! t \<longrightarrow>
          px out t p =
            (if px msk t p then float_of_uint8 (pixel_class (converted ds ef) t p) else nd))"
proof -
  from assms(1) obtain a1 a2 a3 a4 a5 a6 where
    b: "ds ''B02'' = Some a1" "ds ''B03'' = Some a2" "ds ''B04'' = Some a3"
      "ds ''B08'' = Some a4" "ds ''B11'' = Some a5" "ds ''B12'' = Some a6"
    and s: "shape_of (vals a1) = sh" "shape_of (vals a2) = sh" "shape_of (vals a3) = sh"
      "shape_of (vals a4) = sh" "shape_of (vals a5) = sh" "shape_of (vals a6) = sh"
    by (rule has_bands_obtain)
  define tg where "tg = cast_target (dtype a1) ef"
  let ?D = "converted ds ef"
  let ?cls = "run_regression (dtype (cast_to tg a1)) sh nd (vals (cast_to tg a1))
      (vals (cast_to tg a2)) (vals (cast_to tg a3)) (vals (cast_to tg a4))
      (vals (cast_to tg a5)) (vals (cast_to tg a6))"
  let ?out = "copy_masked (full sh nd) msk ?cls"
  have s': "shape_of (vals (cast_to tg a1)) = sh" "shape_of (vals (cast_to tg a2)) = sh"
    "shape_of (vals (cast_to tg a3)) = sh" "shape_of (vals (cast_to tg a4)) = sh"
    "shape_of (vals (cast_to tg a5)) = sh" "shape_of (vals (cast_to tg a6)) = sh"
    using s by simp_all
  have cls: "shape_of ?cls = sh"
    by (rule run_regression_shape [OF s'])
  have eq: "wofs_classify ds (Some msk) xc yc tc nd False ef = Inr (?out, ?D)"
    by (rule wofs_classify_eq [OF b s assms(2-5) tg_def])
  have shp: "shape_of ?out = sh"
    using cls assms(2) by simp
  have d: "?D ''B02'' = Some (cast_to tg a1)" "?D ''B03'' = Some (cast_to tg a2)"
    "?D ''B04'' = Some (cast_to tg a3)" "?D ''B08'' = Some (cast_to tg a4)"
    "?D ''B11'' = Some (cast_to tg a5)" "?D ''B12'' = Some (cast_to tg a6)"
    unfolding tg_def
    using converted_band [of ds a1 "''B02''" a1 ef] converted_band [of ds a1 "''B03''" a2 ef]
      converted_band [of ds a1 "''B04''" a3 ef] converted_band [of ds a1 "''B08''" a4 ef]
      converted_band [of ds a1 "''B11''" a5 ef] converted_band [of ds a1 "''B12''" a6 ef] b
    by (simp_all add: band_names_def)
  have pix: "px ?out t p =
      (if px msk t p then float_of_uint8 (pixel_class ?D t p) else nd)"
    if tp: "t < length sh" "p < sh ! t" for t p
  proof -
    have i: "inside (vals (cast_to tg a1)) t p" "inside (vals (cast_to tg a2)) t p"
        "inside (vals (cast_to tg a3)) t p" "inside (vals (cast_to tg a4)) t p"
        "inside (vals (cast_to tg a5)) t p" "inside (vals (cast_to tg a6)) t p"
      using tp
      by (simp_all add: inside_shape [OF s'(1)] inside_shape [OF s'(2)] inside_shape [OF s'(3)]
          inside_shape [OF s'(4)] inside_shape [OF s'(5)] inside_shape [OF s'(6)])
    have "px ?cls t p = pixel_class ?D t p"
      by (simp add: run_regression_px [OF tp i] pixel_class_def band_def working_dtype_def d)
    moreover have "inside ?cls t p" "inside msk t p"
      using tp by (simp_all add: inside_shape [OF cls] inside_shape [OF assms(2)])
    ultimately show ?thesis using tp by simp
  qed
  from eq shp pix show ?thesis by blast
qed

lemma float_of_uint8_class:
  "float_of_uint8 (pixel_class ds t p) = Fin 0 \<or> float_of_uint8 (pixel_class ds t p) = Fin 1"
  using tree_class_01 [of "working_dtype ds" "pixel_features (working_dtype ds)
      (band ds ''B02'' t p) (band ds ''B03'' t p) (band ds ''B04'' t p) (band ds ''B08'' t p)
      (band ds ''B11'' t p) (band ds ''B12'' t p)"]
  by (auto simp: pixel_class_def float_of_uint8_def)

lemma converted_to_float32:
  assumes "dt \<noteq> Float32" "dt \<noteq> Float64"
    and "gmap (rnd Float32) b02 = c02" "gmap (rnd Float32) b03 = c03"
    "gmap (rnd Float32) b04 = c04" "gmap (rnd Float32) b08 = c08"
    "gmap (rnd Float32) b11 = c11" "gmap (rnd Float32) b12 = c12"
  shows "converted (s2_dataset dt b02 b03 b04 b08 b11 b12 scl) False =
    s2_dataset Float32 c02 c03 c04 c08 c11 c12 scl"
  using assms
  by (auto simp: converted_def s2_dataset_def cast_target_def band_names_def astype_def)

lemma one_pixel: "shape_of w = [1] \<Longrightarrow> w = [[px w 0 0]]"
  by (cases w; cases "hd w") (auto simp: shape_of_def px_def)

section \<open>The claims about \<open>wofs_classify\<close>\<close>

text \<open>
  Claim C10. A call of \<open>wofs_classify\<close> without a clean mask (\<open>clean_mask = None\<close>)
  ends with \<open>NameError\<close> for every dataset and every other argument: the name
  \<open>create_default_clean_mask\<close> is not bound in the notebook, and the call is the first
  statement of the function, before any band is read.
\<close>

theorem default_mask_name_error:
  "wofs_classify dataset_in None x_coord y_coord time_coord no_data mosaic enforce_float64 =
     Inl (NameError ''create_default_clean_mask'')"
  by (simp add: wofs_classify_def default_clean_mask_def notebook_globals_def)

text \<open>
  Claim C2. For a dataset whose six bands have one shape, a clean mask of that shape and
  coordinate names the dataset has, \<open>wofs_classify\<close> (called without \<open>mosaic\<close>) returns
  an array of that shape; every element of it is 0, 1 or \<open>no_data\<close>; it is \<open>no_data\<close>
  where the mask is false and a class 0 or 1 where the mask is true. So, for a no-data
  value that is not itself one of the two classes, an element is \<open>no_data\<close> exactly
  where the mask is false.
\<close>

theorem classes_and_no_data:
  assumes "has_bands ds sh" "shape_of clean_mask = sh"
    and "ds x_coord \<noteq> None" "ds y_coord \<noteq> None" "ds time_coord \<noteq> None"
  shows "\<exists>out ds'. wofs_classify ds (Some clean_mask) x_coord y_coord time_coord no_data False
           enforce_float64 = Inr (out, ds')
    \<and> shape_of out = sh
    \<and> (\<forall>t p. inside out t p \<longrightarrow>
          (px out t p = Fin 0 \<or> px out t p = Fin 1 \<or> px out t p = no_data)
          \<and> (\<not> px clean_mask t p \<longrightarrow> px out t p = no_data)
          \<and> (px clean_mask t p \<longrightarrow> px out t p = Fin 0 \<or> px out t p = Fin 1)
          \<and> (no_data \<noteq> Fin 0 \<and> no_data \<noteq> Fin 1 \<longrightarrow>
               (px out t p = no_data) = (\<not> px clean_mask t p)))"
proof -
  let ?D = "converted ds enforce_float64"
  from wofs_classify_ok [OF assms, of no_data enforce_float64] obtain out where
    eq: "wofs_classify ds (Some clean_mask) x_coord y_coord time_coord no_data False
           enforce_float64 = Inr (out, ?D)"
    and shp: "shape_of out = sh"
    and pix: "\<And>t p. t < length sh \<and> p < sh ! t \<Longrightarrow>
          px out t p = (if px clean_mask t p then float_of_uint8 (pixel_class ?D t p) else no_data)"
    by blast
  have cls: "float_of_uint8 (pixel_class ?D t p) = Fin 0 \<or> float_of_uint8 (pixel_class ?D t p) = Fin 1"
    for t p
    by (rule float_of_uint8_class)
  have "(px out t p = Fin 0 \<or> px out t p = Fin 1 \<or> px out t p = no_data)
          \<and> (\<not> px clean_mask t p \<longrightarrow> px out t p = no_data)
          \<and> (px clean_mask t p \<longrightarrow> px out t p = Fin 0 \<or> px out t p = Fin 1)
          \<and> (no_data \<noteq> Fin 0 \<and> no_data \<noteq> Fin 1 \<longrightarrow>
               (px out t p = no_data) = (\<not> px clean_mask t p))"
    if "inside out t p" for t p
  proof -
    from that have "t < length sh \<and> p < sh ! t"
      by (simp add: inside_shape [OF shp])
    from pix [OF this] cls [of t p] show ?thesis by auto
  qed
  with eq shp show ?thesis by blast
qed

lemma dry_scene_bands: "has_bands dry_scene [1]"
  by (simp add: has_bands_def band_names_def dry_scene_def s2_dataset_def shape_of_def)

theorem classes_and_no_data_witness:
  "\<exists>out ds'. wofs_classify dry_scene (Some [[False]]) ''x'' ''y'' ''time'' NaN False False =
       Inr (out, ds')
     \<and> shape_of out = [1] \<and> inside out 0 0 \<and> px out 0 0 = NaN"
proof -
  have m: "shape_of [[False]] = [1]"
    by (simp add: shape_of_def)
  have c: "dry_scene ''x'' \<noteq> None" "dry_scene ''y'' \<noteq> None" "dry_scene ''time'' \<noteq> None"
    by (simp_all add: dry_scene_def s2_dataset_def)
  from classes_and_no_data [OF dry_scene_bands m c, of NaN False] obtain out ds' where
    eq: "wofs_classify dry_scene (Some [[False]]) ''x'' ''y'' ''time'' NaN False False =
       Inr (out, ds')"
    and shp: "shape_of out = [1]"
    and pix: "\<And>t p. inside out t p \<Longrightarrow> \<not> px [[False]] t p \<longrightarrow> px out t p = NaN"
    by blast
  have i: "inside out 0 0"
    by (simp add: inside_shape [OF shp])
  from pix [OF i] have "px out 0 0 = NaN"
    by (simp add: px_def)
  with eq shp i show ?thesis by blast
qed

subsection \<open>The dataset after the call\<close>

lemma cast_target_None:
  "(cast_target dt ef = None) = (dt = Float64 \<or> (dt = Float32 \<and> \<not> ef))"
  by (auto simp: cast_target_def)

lemma cast_target_Some:
  "cast_target dt ef = Some T \<Longrightarrow> T \<noteq> dt \<and> T = (if ef then Float64 else Float32)"
  by (auto simp: cast_target_def split: if_splits)

lemma cast_target_done: "cast_target dt ef = Some T \<Longrightarrow> cast_target T ef = None"
  by (auto simp: cast_target_def split: if_splits)

lemma converted_idem: "converted (converted ds ef) ef = converted ds ef"
proof (cases "ds ''B02''")
  case None
  then show ?thesis by (simp add: converted_def)
next
  case (Some blue)
  show ?thesis
  proof (cases "cast_target (dtype blue) ef")
    case None
    with Some show ?thesis by (simp add: converted_def)
  next
    case T: (Some T)
    have "converted ds ef ''B02'' = Some (astype blue T)"
      using Some T by (simp add: converted_def band_names_def)
    then show ?thesis
      using cast_target_done [OF T] by (simp add: converted_def [of "converted ds ef"])
  qed
qed

lemma has_bands_converted: "has_bands ds sh \<Longrightarrow> has_bands (converted ds ef) sh"
  by (auto simp: has_bands_def converted_def band_names_def split: option.splits)

lemma converted_present: "ds k \<noteq> None \<Longrightarrow> converted ds ef k \<noteq> None"
  by (auto simp: converted_def split: option.splits)

text \<open>
  Claim C7, as the code has it. On a dataset with the six bands at one shape and the named
  coordinates, a call of \<open>wofs_classify\<close> with a clean mask of that shape returns, and
  it leaves the dataset unchanged exactly when the blue band is \<open>float64\<close>, or is
  \<open>float32\<close> and \<open>float64\<close> is not enforced. Otherwise it replaces each of the six bands
  in the caller's dataset by an array of dtype \<open>float64\<close>, if that is enforced, and
  \<open>float32\<close>, if it is not, holding the values rounded to that dtype. The other
  variables stay as they are in both cases. A second call with the same arguments on the
  dataset as the first call left it returns the same array and changes the dataset no
  further. \<open>classify_changes_dataset\<close> shows the change for \<open>uint16\<close> bands, the dtype
  of the Sentinel-2 product.
\<close>

theorem dataset_after_classify:
  assumes "has_bands ds sh" "shape_of clean_mask = sh"
    and "ds x_coord \<noteq> None" "ds y_coord \<noteq> None" "ds time_coord \<noteq> None"
    and "ds ''B02'' = Some blue"
  shows "\<exists>out ds'. wofs_classify ds (Some clean_mask) x_coord y_coord time_coord no_data False
           enforce_float64 = Inr (out, ds')
    \<and> ((ds' = ds) = (dtype blue = Float64 \<or> (dtype blue = Float32 \<and> \<not> enforce_float64)))
    \<and> (\<forall>n. n \<notin> set band_names \<longrightarrow> ds' n = ds n)
    \<and> (\<not> (dtype blue = Float64 \<or> (dtype blue = Float32 \<and> \<not> enforce_float64)) \<longrightarrow>
          (\<forall>n\<in>set band_names.
             ds' n = map_option
               (\<lambda>a. \<lparr>dtype = (if enforce_float64 then Float64 else Float32),
                      vals = gmap (rnd (if enforce_float64 then Float64 else Float32)) (vals a)\<rparr>)
               (ds n)))
    \<and> wofs_classify ds' (Some clean_mask) x_coord y_coord time_coord no_data False
           enforce_float64 = Inr (out, ds')"
proof -
  let ?D = "converted ds enforce_float64"
  let ?same = "dtype blue = Float64 \<or> (dtype blue = Float32 \<and> \<not> enforce_float64)"
  from wofs_classify_ok [OF assms(1-5), of no_data enforce_float64] obtain out where
    eq: "wofs_classify ds (Some clean_mask) x_coord y_coord time_coord no_data False
           enforce_float64 = Inr (out, ?D)"
    and shp: "shape_of out = sh"
    and pix: "\<And>t p. t < length sh \<and> p < sh ! t \<Longrightarrow>
          px out t p = (if px clean_mask t p then float_of_uint8 (pixel_class ?D t p) else no_data)"
    by blast
  have other: "\<forall>n. n \<notin> set band_names \<longrightarrow> ?D n = ds n"
    by (auto simp: converted_def split: option.splits)
  have bands: "\<not> ?same \<longrightarrow>
          (\<forall>n\<in>set band_names.
             ?D n = map_option
               (\<lambda>a. \<lparr>dtype = (if enforce_float64 then Float64 else Float32),
                      vals = gmap (rnd (if enforce_float64 then Float64 else Float32)) (vals a)\<rparr>)
               (ds n))"
  proof
    assume "\<not> ?same"
    then obtain T where T: "cast_target (dtype blue) enforce_float64 = Some T"
      by (cases "cast_target (dtype blue) enforce_float64") (simp_all add: cast_target_None)
    from cast_target_Some [OF T] have "T = (if enforce_float64 then Float64 else Float32)"
      by simp
    with T show "\<forall>n\<in>set band_names.
             ?D n = map_option
               (\<lambda>a. \<lparr>dtype = (if enforce_float64 then Float64 else Float32),
                      vals = gmap (rnd (if enforce_float64 then Float64 else Float32)) (vals a)\<rparr>)
               (ds n)"
      using assms(6) by (simp add: converted_def astype_def)
  qed
  have same: "(?D = ds) = ?same"
  proof (cases "cast_target (dtype blue) enforce_float64")
    case None
    then show ?thesis
      using assms(6) by (simp add: converted_def cast_target_None [symmetric])
  next
    case (Some T)
    then have "?D ''B02'' = Some (astype blue T)"
      using assms(6) by (simp add: converted_def band_names_def)
    moreover have "astype blue T \<noteq> blue"
      using cast_target_Some [OF Some] by (auto dest: arg_cong [where f = dtype])
    ultimately have "?D \<noteq> ds"
      using assms(6) by (auto dest: fun_cong [where x = "''B02''"])
    moreover have "\<not> ?same"
      using Some by (simp add: cast_target_None [symmetric])
    ultimately show ?thesis by simp
  qed
  have c': "?D x_coord \<noteq> None" "?D y_coord \<noteq> None" "?D time_coord \<noteq> None"
    using assms(3-5) by (simp_all add: converted_present)
  from wofs_classify_ok [OF has_bands_converted [OF assms(1)] assms(2) c',
      of no_data enforce_float64]
  obtain out' where
    eq': "wofs_classify ?D (Some clean_mask) x_coord y_coord time_coord no_data False
           enforce_float64 = Inr (out', ?D)"
    and shp': "shape_of out' = sh"
    and pix': "\<And>t p. t < length sh \<and> p < sh ! t \<Longrightarrow>
          px out' t p = (if px clean_mask t p then float_of_uint8 (pixel_class ?D t p) else no_data)"
    unfolding converted_idem by blast
  have "out' = out"
  proof (rule grid_eqI)
    show "shape_of out' = shape_of out"
      by (simp only: shp shp')
  next
    fix t p
    assume "inside out' t p"
    then have tp: "t < length sh \<and> p < sh ! t"
      by (simp add: inside_shape [OF shp'])
    show "px out' t p = px out t p"
      by (simp only: pix [OF tp] pix' [OF tp])
  qed
  with eq' have again: "wofs_classify ?D (Some clean_mask) x_coord y_coord time_coord no_data
      False enforce_float64 = Inr (out, ?D)"
    by simp
  from eq other bands same again show ?thesis by blast
qed

theorem dataset_after_classify_witness:
  "\<exists>out ds'. wofs_classify dry_scene (Some [[True]]) ''x'' ''y'' ''time'' NaN False False =
       Inr (out, ds')
     \<and> ds' \<noteq> dry_scene \<and> ds' ''SCL'' = dry_scene ''SCL''
     \<and> ds' ''B02'' = Some \<lparr>dtype = Float32, vals = [[Fin 200]]\<rparr>
     \<and> wofs_classify ds' (Some [[True]]) ''x'' ''y'' ''time'' NaN False False = Inr (out, ds')"
proof -
  have m: "shape_of [[True]] = [1]"
    by (simp add: shape_of_def)
  have c: "dry_scene ''x'' \<noteq> None" "dry_scene ''y'' \<noteq> None" "dry_scene ''time'' \<noteq> None"
    by (simp_all add: dry_scene_def s2_dataset_def)
  have b: "dry_scene ''B02'' = Some \<lparr>dtype = UInt16, vals = [[Fin 200]]\<rparr>"
    by (simp add: dry_scene_def s2_dataset_def)
  from dataset_after_classify [OF dry_scene_bands m c b, of NaN False] obtain out ds' where
    eq: "wofs_classify dry_scene (Some [[True]]) ''x'' ''y'' ''time'' NaN False False =
       Inr (out, ds')"
    and ne: "ds' \<noteq> dry_scene"
    and other: "\<And>n. n \<notin> set band_names \<Longrightarrow> ds' n = dry_scene n"
    and bands: "\<And>n. n \<in> set band_names \<Longrightarrow>
        ds' n = map_option (\<lambda>a. \<lparr>dtype = Float32, vals = gmap (rnd Float32) (vals a)\<rparr>)
          (dry_scene n)"
    and again: "wofs_classify ds' (Some [[True]]) ''x'' ''y'' ''time'' NaN False False =
       Inr (out, ds')"
    by auto
  have "ds' ''SCL'' = dry_scene ''SCL''"
    by (rule other) (simp add: band_names_def)
  moreover have "ds' ''B02'' = Some \<lparr>dtype = Float32, vals = [[Fin 200]]\<rparr>"
    using bands [of "''B02''"] float32_band_values by (simp add: band_names_def b gmap_def)
  ultimately show ?thesis using eq ne again by blast
qed

theorem classify_changes_dataset:
  "map_option dtype (dry_scene ''B02'') = Some UInt16
   \<and> (case wofs_classify dry_scene (Some [[True]]) ''x'' ''y'' ''time'' NaN False False of
        Inl e \<Rightarrow> None
      | Inr r \<Rightarrow> map_option dtype (snd r ''B02'')) = Some Float32"
proof -
  have m: "shape_of [[True]] = [1]"
    by (simp add: shape_of_def)
  have c: "dry_scene ''x'' \<noteq> None" "dry_scene ''y'' \<noteq> None" "dry_scene ''time'' \<noteq> None"
    by (simp_all add: dry_scene_def s2_dataset_def)
  from wofs_classify_ok [OF dry_scene_bands m c, of NaN False] obtain out where
    eq: "wofs_classify dry_scene (Some [[True]]) ''x'' ''y'' ''time'' NaN False False =
       Inr (out, converted dry_scene False)"
    by blast
  have "map_option dtype (converted dry_scene False ''B02'') = Some Float32"
    by (simp add: converted_def dry_scene_def s2_dataset_def cast_target_def band_names_def)
  moreover have "map_option dtype (dry_scene ''B02'') = Some UInt16"
    by (simp add: dry_scene_def s2_dataset_def)
  ultimately show ?thesis by (simp add: eq)
qed

subsection \<open>A pixel at a threshold\<close>

text \<open>
  The pixel of \<open>threshold_scene\<close>. In this dataset of \<open>int32\<close> bands with the values
  300, 500, 58531, 241628, 100 and 50, \<open>wofs_classify\<close> converts the bands to \<open>float32\<close>
  and classifies the pixel as water: the index ndi_43 it computes is 5117051/8388608, the
  element of \<open>float32\<close> that the constant 0.61 is converted to, so the test
  \<open>ndi_43 <= 0.61\<close> holds. The decision table with the threshold 0.61 itself gives the
  class 0, both on the features the code computes and on the ratios as real numbers
  (183097/300159 for ndi_43).
\<close>

lemma threshold_scene_bands: "has_bands threshold_scene [1]"
  by (simp add: has_bands_def band_names_def threshold_scene_def s2_dataset_def shape_of_def)

theorem float32_threshold_differs:
  "(case wofs_classify threshold_scene (Some [[True]]) ''x'' ''y'' ''time'' NaN False False of
      Inl e \<Rightarrow> None
    | Inr r \<Rightarrow> Some (fst r)) = Some [[Fin 1]]
   \<and> px (run_regression Float32 [1] NaN [[Fin 300]] [[Fin 500]] [[Fin 58531]] [[Fin 241628]]
       [[Fin 100]] [[Fin 50]]) 0 0 = 1
   \<and> pixel_features Float32 (Fin 300) (Fin 500) (Fin 58531) (Fin 241628) (Fin 100) (Fin 50) =
       (Fin (- (11184811 / 16777216)), Fin (5117051 / 8388608), Fin (- (13726813 / 16777216)),
        Fin 300, Fin 58531, Fin 50)
   \<and> spec_table exact_le exact_gt
       (pixel_features Float32 (Fin 300) (Fin 500) (Fin 58531) (Fin 241628) (Fin 100) (Fin 50)) =
       Some 0
   \<and> exact_features (Fin 300) (Fin 500) (Fin 58531) (Fin 241628) (Fin 100) (Fin 50) =
       (Fin (- (2 / 3)), Fin (183097 / 300159), Fin (- (9 / 11)), Fin 300, Fin 58531, Fin 50)
   \<and> spec_table exact_le exact_gt
       (exact_features (Fin 300) (Fin 500) (Fin 58531) (Fin 241628) (Fin 100) (Fin 50)) =
       Some 0"
proof -
  have i: "inside [[Fin 300]] 0 0" "inside [[Fin 500]] 0 0" "inside [[Fin 58531]] 0 0"
    "inside [[Fin 241628]] 0 0" "inside [[Fin 100]] 0 0" "inside [[Fin 50]] 0 0"
    by (simp_all add: inside_def)
  have c: "px (run_regression Float32 [1] NaN [[Fin 300]] [[Fin 500]] [[Fin 58531]]
       [[Fin 241628]] [[Fin 100]] [[Fin 50]]) 0 0 = 1"
    using run_regression_px [of 0 "[1]" 0 "[[Fin 300]]" "[[Fin 500]]" "[[Fin 58531]]"
        "[[Fin 241628]]" "[[Fin 100]]" "[[Fin 50]]" Float32 NaN] i
    by (simp add: px_def threshold_pixel_features threshold_pixel_class)
  have t: "spec_table exact_le exact_gt
       (pixel_features Float32 (Fin 300) (Fin 500) (Fin 58531) (Fin 241628) (Fin 100) (Fin 50)) =
       Some 0"
    unfolding threshold_pixel_features by (simp add: spec_table_def left_rules_def)
  have e: "exact_features (Fin 300) (Fin 500) (Fin 58531) (Fin 241628) (Fin 100) (Fin 50) =
       (Fin (- (2 / 3)), Fin (183097 / 300159), Fin (- (9 / 11)), Fin 300, Fin 58531, Fin 50)"
    by (simp add: exact_features_def exact_ratio_def fsub_def)
  have u: "spec_table exact_le exact_gt
       (exact_features (Fin 300) (Fin 500) (Fin 58531) (Fin 241628) (Fin 100) (Fin 50)) =
       Some 0"
    unfolding e by (simp add: spec_table_def left_rules_def)
  have m: "shape_of [[True]] = [1]"
    by (simp add: shape_of_def)
  have k: "threshold_scene ''x'' \<noteq> None" "threshold_scene ''y'' \<noteq> None"
    "threshold_scene ''time'' \<noteq> None"
    by (simp_all add: threshold_scene_def s2_dataset_def)
  from wofs_classify_ok [OF threshold_scene_bands m k, of NaN False] obtain out where
    eq: "wofs_classify threshold_scene (Some [[True]]) ''x'' ''y'' ''time'' NaN False False =
       Inr (out, converted threshold_scene False)"
    and shp: "shape_of out = [1]"
    and pix: "\<And>t p. t < length [1::nat] \<and> p < [1] ! t \<Longrightarrow>
          px out t p = (if px [[True]] t p
            then float_of_uint8 (pixel_class (converted threshold_scene False) t p) else NaN)"
    by blast
  have d: "converted threshold_scene False = s2_dataset Float32 [[Fin 300]] [[Fin 500]]
      [[Fin 58531]] [[Fin 241628]] [[Fin 100]] [[Fin 50]] [[Fin 6]]"
    unfolding threshold_scene_def
    by (rule converted_to_float32) (simp_all add: gmap_def float32_band_values)
  have cls: "pixel_class (converted threshold_scene False) 0 0 = 1"
    unfolding d
    by (simp add: pixel_class_def working_dtype_def band_def s2_dataset_def px_def
        threshold_pixel_features threshold_pixel_class)
  have "px out 0 0 = Fin 1"
    using pix [of 0 0] by (simp add: cls px_def float_of_uint8_def)
  with one_pixel [OF shp] have "out = [[Fin 1]]"
    by simp
  with eq have w: "(case wofs_classify threshold_scene (Some [[True]]) ''x'' ''y'' ''time'' NaN
      False False of Inl e \<Rightarrow> None | Inr r \<Rightarrow> Some (fst r)) = Some [[Fin 1]]"
    by simp
  from w c threshold_pixel_features t e u show ?thesis by simp
qed

section \<open>Properties of the point-month task\<close>

subsection \<open>The reduction over the scenes\<close>

lemma map2_same: "map2 f (map g xs) (map h xs) = map (\<lambda>x. f (g x) (h x)) xs"
  by (induction xs) simp_all

lemma filter_id_map: "filter id (map P xs) = map P (filter P xs)"
  by (induction xs) simp_all

lemma clear_flags: "map (list_all id) (gor (geq w 1) (geq w 0)) = map scene_clear w"
proof -
  have "gor (geq w 1) (geq w 0) = map (map (\<lambda>v. v = Fin 1 \<or> v = Fin 0)) w"
    by (simp add: gor_def geq_def gzip_def gmap_def map2_same)
  then show ?thesis
    by (auto simp: scene_clear_def list_all_iff)
qed

lemma isel_clear:
  "isel (geq w 1) (map scene_clear w) = map (map (\<lambda>v. v = Fin 1)) (filter scene_clear w)"
  by (induction w) (simp_all add: isel_def geq_def gmap_def)

lemma amax_selected:
  assumes "\<forall>s\<in>set w. s \<noteq> []" "filter scene_clear w \<noteq> []"
  shows "amax (map (map (\<lambda>v. v = Fin 1)) (filter scene_clear w)) =
    Inr (\<exists>s\<in>set w. scene_clear s \<and> scene_water s)"
proof -
  from assms(2) obtain s where s: "s \<in> set (filter scene_clear w)"
    by (cases "filter scene_clear w") auto
  with assms(1) have "s \<noteq> []" by auto
  with s have "concat (map (map (\<lambda>v. v = Fin 1)) (filter scene_clear w)) \<noteq> []"
    by auto
  then show ?thesis
    by (auto simp: amax_def scene_water_def)
qed

lemma time_window_ok:
  "1 \<le> month \<Longrightarrow> month \<le> 12 \<Longrightarrow>
     time_window month = Inr (''2018-'' @ pad2 month, ''2018-'' @ pad2 month @ ''-06'')"
  by (simp add: time_window_def Let_def)

lemma rows_nonempty:
  assumes "shape_of w = sh" "\<forall>n\<in>set sh. 0 < n"
  shows "\<forall>s\<in>set w. s \<noteq> []"
  using assms by (auto simp: shape_of_def)

lemma task_classified:
  assumes "task_input ds sh"
  obtains scl where "ds ''SCL'' = Some scl" "shape_of (vals scl) = sh"
    "wofs_classify ds (Some (isin (vals scl) [4, 5, 6, 7, 11])) ''x'' ''y'' ''time'' NaN
       False False = Inr (wofls_of ds, converted ds False)"
    "shape_of (wofls_of ds) = sh"
    "\<And>t p. t < length sh \<and> p < sh ! t \<Longrightarrow>
       px (wofls_of ds) t p =
         (if px (isin (vals scl) [4, 5, 6, 7, 11]) t p
          then float_of_uint8 (pixel_class (converted ds False) t p) else NaN)"
proof -
  from assms obtain scl where scl: "ds ''SCL'' = Some scl" "shape_of (vals scl) = sh"
    by (auto simp: task_input_def split: option.splits)
  have b: "has_bands ds sh" and c: "ds ''x'' \<noteq> None" "ds ''y'' \<noteq> None"
      "ds ''time'' \<noteq> None"
    using assms by (simp_all add: task_input_def)
  have m: "shape_of (isin (vals scl) [4, 5, 6, 7, 11]) = sh"
    using scl(2) by (simp add: isin_def)
  from wofs_classify_ok [OF b m c, of NaN False] obtain out where
    out: "wofs_classify ds (Some (isin (vals scl) [4, 5, 6, 7, 11])) ''x'' ''y'' ''time'' NaN
       False False = Inr (out, converted ds False)"
      "shape_of out = sh"
      "\<And>t p. t < length sh \<and> p < sh ! t \<Longrightarrow>
         px out t p = (if px (isin (vals scl) [4, 5, 6, 7, 11]) t p
          then float_of_uint8 (pixel_class (converted ds False) t p) else NaN)"
    by blast
  have w: "wofls_of ds = out"
    using scl(1) out(1) by (simp add: wofls_of_def)
  show thesis
    using scl out that unfolding w by blast
qed

lemma task_eq:
  assumes "1 \<le> month" "month \<le> 12" "task_input ds sh"
  shows "get_wofs_for_point month plot_id ds results_wet results_clear =
    Inr (Some (''2018-'' @ pad2 month, ''2018-'' @ pad2 month @ ''-06''),
         results_wet(point_key plot_id month \<mapsto> wet_flag (wofls_of ds)),
         results_clear(point_key plot_id month \<mapsto> int (clear_count (wofls_of ds))))"
proof -
  from assms(3) obtain scl where scl: "ds ''SCL'' = Some scl"
    and cls: "wofs_classify ds (Some (isin (vals scl) [4, 5, 6, 7, 11])) ''x'' ''y'' ''time'' NaN
       False False = Inr (wofls_of ds, converted ds False)"
    and shp: "shape_of (wofls_of ds) = sh"
    by (rule task_classified)
  have b02: "ds ''B02'' \<noteq> None"
    using assms(3) by (auto simp: task_input_def has_bands_def band_names_def split: option.splits)
  have ne: "\<forall>s\<in>set (wofls_of ds). s \<noteq> []"
    using assms(3) by (intro rows_nonempty [OF shp]) (simp add: task_input_def)
  show ?thesis
  proof (cases "filter scene_clear (wofls_of ds) = []")
    case True
    then have w: "\<not> (\<exists>s\<in>set (wofls_of ds). scene_clear s \<and> scene_water s)"
      by (auto simp: filter_empty_conv)
    then have wf: "wet_flag (wofls_of ds) = 0"
      by (simp add: wet_flag_def)
    have cc: "clear_count (wofls_of ds) = 0"
      using True by (simp add: clear_count_def)
    show ?thesis
      using True b02 scl
      unfolding get_wofs_for_point_def Let_def
      by (simp add: time_window_ok [OF assms(1,2)] getitem_def cls
          clear_flags filter_id_map wf cc point_key_def)
  next
    case False
    show ?thesis
      using False b02 scl
      unfolding get_wofs_for_point_def Let_def
      by (simp add: time_window_ok [OF assms(1,2)] getitem_def cls
          clear_flags filter_id_map isel_clear amax_selected [OF ne False]
          wet_flag_def clear_count_def point_key_def)
  qed
qed

section \<open>The claims about the point-month task\<close>

text \<open>
  Claim C3. For a point whose month is 1 to 12 and a response with all bands, the task
  records under the key of the point-month a clear count that is the number of scenes
  whose every footprint pixel is classified 0 or 1, and a wet flag that is 1 exactly when
  some clear scene has a pixel classified 1. With no clear scene the flag is 0, and a
  flag of 1 implies at least one clear scene.
\<close>

theorem clear_count_and_wet:
  assumes "1 \<le> month" "month \<le> 12" "task_input s2_data sh"
  shows "\<exists>time wet n_clear.
      time_window month = Inr time
    \<and> get_wofs_for_point month plot_id s2_data results_wet results_clear =
        Inr (Some time,
             results_wet(point_key plot_id month \<mapsto> wet),
             results_clear(point_key plot_id month \<mapsto> int n_clear))
    \<and> n_clear = length (filter scene_clear (wofls_of s2_data))
    \<and> (wet = 1) = (\<exists>s\<in>set (wofls_of s2_data). scene_clear s \<and> scene_water s)
    \<and> (wet = 0 \<or> wet = 1)
    \<and> (n_clear = 0 \<longrightarrow> wet = 0)
    \<and> (wet = 1 \<longrightarrow> 1 \<le> n_clear)"
proof -
  let ?w = "wofls_of s2_data"
  have a: "wet_flag ?w = 0 \<or> wet_flag ?w = 1"
    by (simp add: wet_flag_def)
  have b: "(wet_flag ?w = 1) = (\<exists>s\<in>set ?w. scene_clear s \<and> scene_water s)"
    by (simp add: wet_flag_def)
  have c: "wet_flag ?w = 1 \<longrightarrow> 1 \<le> clear_count ?w"
  proof
    assume "wet_flag ?w = 1"
    with b obtain s where "s \<in> set ?w" "scene_clear s" by blast
    then have "filter scene_clear ?w \<noteq> []"
      by (auto simp: filter_empty_conv)
    then show "1 \<le> clear_count ?w"
      by (cases "filter scene_clear ?w") (simp_all add: clear_count_def)
  qed
  have d: "clear_count ?w = 0 \<longrightarrow> wet_flag ?w = 0"
    using a c by auto
  from task_eq [OF assms, of plot_id results_wet results_clear] a b c d
    time_window_ok [OF assms(1,2)]
  show ?thesis
    unfolding clear_count_def by blast
qed

lemma dry_scene_task: "task_input dry_scene [1]"
  using dry_scene_bands
  by (simp add: task_input_def dry_scene_def s2_dataset_def shape_of_def)

lemma wet_scene_task: "task_input wet_scene [1]"
  by (simp add: task_input_def has_bands_def band_names_def wet_scene_def s2_dataset_def
      shape_of_def)

lemma wet_scene_wofls: "wofls_of wet_scene = [[Fin 1]]"
proof -
  have "\<exists>scl. wet_scene ''SCL'' = Some scl \<and> shape_of (wofls_of wet_scene) = [1]
      \<and> (\<forall>t p. t < length [1::nat] \<and> p < [1] ! t \<longrightarrow>
       px (wofls_of wet_scene) t p =
         (if px (isin (vals scl) [4, 5, 6, 7, 11]) t p
          then float_of_uint8 (pixel_class (converted wet_scene False) t p) else NaN))"
    by (rule task_classified [OF wet_scene_task]) blast
  then obtain scl where scl: "wet_scene ''SCL'' = Some scl"
    and shp: "shape_of (wofls_of wet_scene) = [1]"
    and pix: "\<And>t p. t < length [1::nat] \<and> p < [1] ! t \<Longrightarrow>
       px (wofls_of wet_scene) t p =
         (if px (isin (vals scl) [4, 5, 6, 7, 11]) t p
          then float_of_uint8 (pixel_class (converted wet_scene False) t p) else NaN)"
    by blast
  have v: "vals scl = [[Fin 6]]"
    using scl by (auto simp: wet_scene_def s2_dataset_def)
  have d: "converted wet_scene False = s2_dataset Float32 [[Fin 300]] [[Fin 500]] [[Fin 400]]
      [[Fin 100]] [[Fin 100]] [[Fin 50]] [[Fin 6]]"
      unfolding wet_scene_def
    by (rule converted_to_float32) (simp_all add: gmap_def float32_band_values)
  have c: "pixel_class (converted wet_scene False) 0 0 = 1"
    unfolding d
    by (simp add: pixel_class_def working_dtype_def band_def s2_dataset_def px_def
        wet_pixel_features wet_pixel_class)
  have "px (wofls_of wet_scene) 0 0 = Fin 1"
    using pix [of 0 0] by (simp add: v c isin_def gmap_def px_def float_of_uint8_def)
  with one_pixel [OF shp] show ?thesis by simp
qed

theorem clear_count_and_wet_witness:
  "get_wofs_for_point 8 137 wet_scene Map.empty Map.empty =
     Inr (Some (''2018-08'', ''2018-08-06''), [''137_8'' \<mapsto> 1], [''137_8'' \<mapsto> 1])"
proof -
  have m: "(1::int) \<le> 8" "(8::int) \<le> 12" by simp_all
  have t: "time_window 8 = Inr (''2018-08'', ''2018-08-06'')"
    by (simp add: time_window_def pad2_def str_int_def str_nat.simps)
  have k: "point_key 137 8 = ''137_8''"
    by (simp add: point_key_def str_int_def str_nat.simps)
  have c: "scene_clear [Fin 1]" "scene_water [Fin 1]"
    by (simp_all add: scene_clear_def scene_water_def)
  from clear_count_and_wet [OF m wet_scene_task, of 137 Map.empty Map.empty]
  show ?thesis
    using c by (auto simp: t k wet_scene_wofls)
qed

text \<open>
  Claim C4, as the code has it. The task tests the response for the band \<open>B02\<close> only.
  When \<open>B02\<close> is absent (and the month is 1 to 12), the task returns \<open>None\<close>, raises
  nothing and leaves both result dictionaries as they were. When another band is absent
  although \<open>B02\<close> is present, the task does not return: \<open>absent_green_band_raises\<close>
  shows the \<open>AttributeError\<close> for a response without \<open>B03\<close>.
\<close>

theorem absent_blue_band:
  assumes "1 \<le> month" "month \<le> 12" "s2_data ''B02'' = None"
  shows "get_wofs_for_point month plot_id s2_data results_wet results_clear =
    Inr (None, results_wet, results_clear)"
  using assms by (simp add: get_wofs_for_point_def time_window_ok)

theorem absent_blue_band_witness:
  "get_wofs_for_point 3 7 Map.empty [''5_1'' \<mapsto> 1] [''5_1'' \<mapsto> 2] =
     Inr (None, [''5_1'' \<mapsto> 1], [''5_1'' \<mapsto> 2])"
  using absent_blue_band [of 3 Map.empty 7 "[''5_1'' \<mapsto> 1]" "[''5_1'' \<mapsto> 2]"]
  by simp

theorem absent_green_band_raises:
  "(dry_scene(''B03'' := None)) ''B03'' = None
   \<and> get_wofs_for_point 8 137 (dry_scene(''B03'' := None)) Map.empty Map.empty =
       Inl (AttributeError ''B03'')"
  by (simp add: get_wofs_for_point_def time_window_def pad2_def str_int_def str_nat.simps
      getitem_def wofs_classify_def default_clean_mask_def getattr_def dry_scene_def
      s2_dataset_def)

subsection \<open>A response with further scenes\<close>

lemma px_take_eq: "take (length a) a' = a \<Longrightarrow> t < length a \<Longrightarrow> px a' t p = px a t p"
  by (metis nth_take px_def)

lemma extends_var:
  assumes "extends_scenes ds' ds" "n \<in> set (''SCL'' # band_names)"
  obtains a a' where "ds n = Some a" "ds' n = Some a'" "take (length (vals a)) (vals a') = vals a"
proof -
  from assms have "case ds n of None \<Rightarrow> False
      | Some a \<Rightarrow> (case ds' n of None \<Rightarrow> False
          | Some a' \<Rightarrow> take (length (vals a)) (vals a') = vals a)"
    unfolding extends_scenes_def list_all_iff by blast
  then have "\<exists>a a'. ds n = Some a \<and> ds' n = Some a'
      \<and> take (length (vals a)) (vals a') = vals a"
    by (cases "ds n"; cases "ds' n") simp_all
  with that show thesis by blast
qed

lemma take_prefix_le: "take (length xs) ys = xs \<Longrightarrow> length xs \<le> length ys"
proof -
  assume "take (length xs) ys = xs"
  then have "length (take (length xs) ys) = length xs" by simp
  then show ?thesis by (simp add: min_def split: if_splits)
qed

lemma has_bands_var:
  assumes "has_bands ds sh" "n \<in> set band_names" "ds n = Some a"
  shows "shape_of (vals a) = sh"
  using assms by (auto simp: has_bands_def list_all_iff split: option.splits)

lemma shape_extends:
  assumes "extends_scenes ds' ds" "task_input ds sh" "task_input ds' sh'"
  shows "take (length sh) sh' = sh"
proof -
  have "''SCL'' \<in> set (''SCL'' # band_names)" by simp
  with assms(1) obtain a a' where a: "ds ''SCL'' = Some a" "ds' ''SCL'' = Some a'"
      "take (length (vals a)) (vals a') = vals a"
    by (rule extends_var)
  have s: "shape_of (vals a) = sh" "shape_of (vals a') = sh'"
    using assms(2,3) a by (simp_all add: task_input_def)
  have "take (length (vals a)) (map length (vals a')) = map length (vals a)"
    using a(3) by (metis take_map)
  moreover have "length (vals a) = length sh"
    using s(1) by (auto simp: shape_of_def)
  ultimately show ?thesis using s by (simp add: shape_of_def)
qed

text \<open>
  A scene is clear exactly when the mask holds at every pixel of the footprint: the
  classifier leaves a class at the pixels of the mask and NaN at the others.
\<close>

lemma scene_clear_mask:
  assumes "task_input ds sh" "ds ''SCL'' = Some scl" "t < length sh"
  shows "scene_clear (wofls_of ds ! t) =
    (\<forall>p. p < sh ! t \<longrightarrow> px (isin (vals scl) [4, 5, 6, 7, 11]) t p)"
proof -
  have "\<exists>scl'. ds ''SCL'' = Some scl' \<and> shape_of (wofls_of ds) = sh
      \<and> (\<forall>t p. t < length sh \<and> p < sh ! t \<longrightarrow>
       px (wofls_of ds) t p =
         (if px (isin (vals scl') [4, 5, 6, 7, 11]) t p
          then float_of_uint8 (pixel_class (converted ds False) t p) else NaN))"
    by (rule task_classified [OF assms(1)]) blast
  with assms(2) have shp: "shape_of (wofls_of ds) = sh"
    and pix: "\<And>t p. t < length sh \<and> p < sh ! t \<Longrightarrow>
       px (wofls_of ds) t p =
         (if px (isin (vals scl) [4, 5, 6, 7, 11]) t p
          then float_of_uint8 (pixel_class (converted ds False) t p) else NaN)"
    by auto
  have len: "length (wofls_of ds ! t) = sh ! t"
    using shp assms(3) by (auto simp: shape_of_def dest: arg_cong [where f = "\<lambda>l. l ! t"])
  have "scene_clear (wofls_of ds ! t) =
      (\<forall>p. p < sh ! t \<longrightarrow> px (wofls_of ds) t p = Fin 0 \<or> px (wofls_of ds) t p = Fin 1)"
    unfolding scene_clear_def px_def by (simp add: all_set_conv_all_nth len)
  also have "\<dots> = (\<forall>p. p < sh ! t \<longrightarrow> px (isin (vals scl) [4, 5, 6, 7, 11]) t p)"
  proof -
    have "(px (wofls_of ds) t p = Fin 0 \<or> px (wofls_of ds) t p = Fin 1) =
        px (isin (vals scl) [4, 5, 6, 7, 11]) t p" if "p < sh ! t" for p
      using pix [of t p] that assms(3) float_of_uint8_class [of "converted ds False" t p]
      by auto
    then show ?thesis by auto
  qed
  finally show ?thesis .
qed

lemma clear_flags_extend:
  assumes "extends_scenes ds' ds" "task_input ds sh" "task_input ds' sh'"
  shows "map scene_clear (take (length sh) (wofls_of ds')) = map scene_clear (wofls_of ds)"
proof (rule nth_equalityI)
  have pre: "take (length sh) sh' = sh"
    by (rule shape_extends [OF assms])
  then have len: "length sh \<le> length sh'"
    by (rule take_prefix_le)
  have nth: "sh' ! t = sh ! t" if "t < length sh" for t
    using pre that by (metis nth_take)
  have "''SCL'' \<in> set (''SCL'' # band_names)" by simp
  with assms(1) obtain scl scl' where scl: "ds ''SCL'' = Some scl" "ds' ''SCL'' = Some scl'"
      "take (length (vals scl)) (vals scl') = vals scl"
    by (rule extends_var)
  have shs: "shape_of (vals scl) = sh" "shape_of (vals scl') = sh'"
    using assms(2,3) scl by (simp_all add: task_input_def)
  have lscl: "length (vals scl) = length sh"
    using shs(1) by (auto simp: shape_of_def)
  have lw: "length (wofls_of ds) = length sh" "length (wofls_of ds') = length sh'"
  proof -
    have "shape_of (wofls_of ds) = sh"
      by (rule task_classified [OF assms(2)])
    then show "length (wofls_of ds) = length sh"
      by (auto simp: shape_of_def)
    have "shape_of (wofls_of ds') = sh'"
      by (rule task_classified [OF assms(3)])
    then show "length (wofls_of ds') = length sh'"
      by (auto simp: shape_of_def)
  qed
  show "length (map scene_clear (take (length sh) (wofls_of ds'))) =
      length (map scene_clear (wofls_of ds))"
    using lw len by simp
  fix t
  assume "t < length (map scene_clear (take (length sh) (wofls_of ds')))"
  then have t: "t < length sh"
    by simp
  then have t': "t < length sh'"
    using len by simp
  have m: "px (isin (vals scl') [4, 5, 6, 7, 11]) t p = px (isin (vals scl) [4, 5, 6, 7, 11]) t p"
    if "p < sh ! t" for p
  proof -
    have "inside (vals scl) t p" "inside (vals scl') t p"
      using t t' that by (simp_all add: inside_shape [OF shs(1)] inside_shape [OF shs(2)] nth)
    then show ?thesis
      using px_take_eq [OF scl(3), of t p] t lscl by (simp add: isin_def)
  qed
  have "scene_clear (wofls_of ds' ! t) = scene_clear (wofls_of ds ! t)"
    unfolding scene_clear_mask [OF assms(2) scl(1) t] scene_clear_mask [OF assms(3) scl(2) t']
    using m by (simp add: nth [OF t])
  then show "map scene_clear (take (length sh) (wofls_of ds')) ! t =
      map scene_clear (wofls_of ds) ! t"
    using t lw len by simp
qed

lemma length_filter_flags: "length (filter P xs) = length (filter id (map P xs))"
  by (simp add: filter_id_map)

lemma filter_take_le: "length (filter P (take n xs)) \<le> length (filter P xs)"
proof -
  have "length (filter P xs) = length (filter P (take n xs @ drop n xs))" by simp
  also have "\<dots> = length (filter P (take n xs)) + length (filter P (drop n xs))"
    by (simp only: filter_append length_append)
  finally show ?thesis by simp
qed

lemma n_scenes_shape: "task_input ds sh \<Longrightarrow> n_scenes ds = length sh"
  by (auto simp: task_input_def has_bands_def band_names_def n_scenes_def shape_of_def
      split: option.splits)

text \<open>
  Claim C9. The clear count of a point-month is at most the number of scenes of the
  response, and a response that has further scenes after the same first scenes gives a
  clear count that is at least as large.
\<close>

theorem clear_count_monotone:
  assumes "1 \<le> month" "month \<le> 12"
    and "task_input s2_data sh" "task_input more_data sh'" "extends_scenes more_data s2_data"
  shows "\<exists>time wet wet' n_clear n_clear'.
      get_wofs_for_point month plot_id s2_data results_wet results_clear =
        Inr (Some time,
             results_wet(point_key plot_id month \<mapsto> wet),
             results_clear(point_key plot_id month \<mapsto> int n_clear))
    \<and> get_wofs_for_point month plot_id more_data results_wet results_clear =
        Inr (Some time,
             results_wet(point_key plot_id month \<mapsto> wet'),
             results_clear(point_key plot_id month \<mapsto> int n_clear'))
    \<and> n_clear \<le> n_scenes s2_data
    \<and> n_scenes s2_data \<le> n_scenes more_data
    \<and> n_clear \<le> n_clear'"
proof -
  have a: "clear_count (wofls_of s2_data) \<le> n_scenes s2_data"
  proof -
    have "shape_of (wofls_of s2_data) = sh"
      by (rule task_classified [OF assms(3)])
    then have "length (wofls_of s2_data) = length sh"
      by (auto simp: shape_of_def)
    then show ?thesis
      using length_filter_le [of scene_clear "wofls_of s2_data"]
      by (simp add: clear_count_def n_scenes_shape [OF assms(3)])
  qed
  have pre: "take (length sh) sh' = sh"
    by (rule shape_extends [OF assms(5,3,4)])
  then have "length sh \<le> length sh'"
    by (rule take_prefix_le)
  then have b: "n_scenes s2_data \<le> n_scenes more_data"
    by (simp add: n_scenes_shape [OF assms(3)] n_scenes_shape [OF assms(4)])
  have "length (filter scene_clear (wofls_of s2_data)) =
      length (filter scene_clear (take (length sh) (wofls_of more_data)))"
    unfolding length_filter_flags [of scene_clear]
    by (simp only: clear_flags_extend [OF assms(5,3,4)])
  then have c: "clear_count (wofls_of s2_data) \<le> clear_count (wofls_of more_data)"
    unfolding clear_count_def by (simp add: filter_take_le)
  from task_eq [OF assms(1,2,3), of plot_id results_wet results_clear]
    task_eq [OF assms(1,2,4), of plot_id results_wet results_clear] a b c
  show ?thesis by blast
qed

lemma two_scenes_task: "task_input two_scenes [1, 1]"
  by (simp add: task_input_def has_bands_def band_names_def two_scenes_def s2_dataset_def
      shape_of_def)

lemma two_scenes_extends: "extends_scenes two_scenes wet_scene"
  by (simp add: extends_scenes_def band_names_def two_scenes_def wet_scene_def s2_dataset_def)

lemma two_pixels: "shape_of w = [1, 1] \<Longrightarrow> w = [[px w 0 0], [px w 1 0]]"
  by (auto simp: shape_of_def px_def map_eq_Cons_conv length_Suc_conv)

lemma two_scenes_wofls: "wofls_of two_scenes = [[Fin 1], [Fin 0]]"
proof -
  have "\<exists>scl. two_scenes ''SCL'' = Some scl \<and> shape_of (wofls_of two_scenes) = [1, 1]
      \<and> (\<forall>t p. t < length [1, 1::nat] \<and> p < [1, 1] ! t \<longrightarrow>
       px (wofls_of two_scenes) t p =
         (if px (isin (vals scl) [4, 5, 6, 7, 11]) t p
          then float_of_uint8 (pixel_class (converted two_scenes False) t p) else NaN))"
    by (rule task_classified [OF two_scenes_task]) blast
  then obtain scl where scl: "two_scenes ''SCL'' = Some scl"
    and shp: "shape_of (wofls_of two_scenes) = [1, 1]"
    and pix: "\<And>t p. t < length [1, 1::nat] \<and> p < [1, 1] ! t \<Longrightarrow>
       px (wofls_of two_scenes) t p =
         (if px (isin (vals scl) [4, 5, 6, 7, 11]) t p
          then float_of_uint8 (pixel_class (converted two_scenes False) t p) else NaN)"
    by blast
  have v: "vals scl = [[Fin 6], [Fin 4]]"
    using scl by (auto simp: two_scenes_def s2_dataset_def)
  have d: "converted two_scenes False = s2_dataset Float32 [[Fin 300], [Fin 200]]
      [[Fin 500], [Fin 200]] [[Fin 400], [Fin 200]] [[Fin 100], [Fin 2000]]
      [[Fin 100], [Fin 3000]] [[Fin 50], [Fin 100]] [[Fin 6], [Fin 4]]"
    unfolding two_scenes_def
    by (rule converted_to_float32) (simp_all add: gmap_def float32_band_values)
  have c: "pixel_class (converted two_scenes False) 0 0 = 1"
    "pixel_class (converted two_scenes False) 1 0 = 0"
    unfolding d
    by (simp_all add: pixel_class_def working_dtype_def band_def s2_dataset_def px_def
        pixel_features_def wet_pixel_features [unfolded pixel_features_def] wet_pixel_class
        dry_pixel_ratio dry_pixel_class)
  have c': "pixel_class (converted two_scenes False) (Suc 0) 0 = 0"
    using c(2) by simp
  have "px (wofls_of two_scenes) 0 0 = Fin 1" "px (wofls_of two_scenes) 1 0 = Fin 0"
    using pix [of 0 0] pix [of 1 0]
    by (simp_all add: v c c' isin_def gmap_def px_def float_of_uint8_def)
  with two_pixels [OF shp] show ?thesis by simp
qed

theorem clear_count_monotone_witness:
  "\<exists>time wet wet' n_clear n_clear'.
      get_wofs_for_point 8 137 wet_scene Map.empty Map.empty =
        Inr (Some time, [''137_8'' \<mapsto> wet], [''137_8'' \<mapsto> int n_clear])
    \<and> get_wofs_for_point 8 137 two_scenes Map.empty Map.empty =
        Inr (Some time, [''137_8'' \<mapsto> wet'], [''137_8'' \<mapsto> int n_clear'])
    \<and> n_clear = 1 \<and> n_scenes wet_scene = 1 \<and> n_clear' = 2 \<and> n_scenes two_scenes = 2
    \<and> n_clear \<le> n_scenes wet_scene \<and> n_clear \<le> n_clear'"
proof -
  have m: "(1::int) \<le> 8" "(8::int) \<le> 12" by simp_all
  have n: "n_scenes wet_scene = 1" "n_scenes two_scenes = 2"
    by (simp_all add: n_scenes_def wet_scene_def two_scenes_def s2_dataset_def)
  have k: "point_key 137 8 = ''137_8''"
    by (simp add: point_key_def str_int_def str_nat.simps)
  have c: "clear_count (wofls_of wet_scene) = 1" "clear_count (wofls_of two_scenes) = 2"
    by (simp_all add: clear_count_def wet_scene_wofls two_scenes_wofls scene_clear_def)
  from clear_count_monotone [OF m wet_scene_task two_scenes_task two_scenes_extends,
      of 137 Map.empty Map.empty]
  obtain time wet wet' n_clear n_clear' where
    r: "get_wofs_for_point 8 137 wet_scene Map.empty Map.empty =
        Inr (Some time, [''137_8'' \<mapsto> wet], [''137_8'' \<mapsto> int n_clear])"
      "get_wofs_for_point 8 137 two_scenes Map.empty Map.empty =
        Inr (Some time, [''137_8'' \<mapsto> wet'], [''137_8'' \<mapsto> int n_clear'])"
    and le: "n_clear \<le> n_scenes wet_scene" "n_clear \<le> n_clear'"
    unfolding k by blast
  from r(1) task_eq [OF m wet_scene_task, of 137 Map.empty Map.empty]
  have "[''137_8'' \<mapsto> int n_clear] = [''137_8'' \<mapsto> int (clear_count (wofls_of wet_scene))]"
    by (simp add: k)
  then have n1: "n_clear = 1"
    unfolding c by (auto dest: map_upd_eqD1)
  from r(2) task_eq [OF m two_scenes_task, of 137 Map.empty Map.empty]
  have "[''137_8'' \<mapsto> int n_clear'] = [''137_8'' \<mapsto> int (clear_count (wofls_of two_scenes))]"
    by (simp add: k)
  then have n2: "n_clear' = 2"
    unfolding c by (auto dest: map_upd_eqD1)
  from r le n n1 n2 show ?thesis by blast
qed

section \<open>The claims about the accuracy assessment\<close>

lemma count_zip:
  "length (filter (\<lambda>ap. Q (fst ap) (snd ap)) (zip (map f xs) (map g xs))) =
     length (filter (\<lambda>x. Q (f x) (g x)) xs)"
  by (induction xs) simp_all

lemma frequencies_cell:
  assumes "a \<in> set (map ACTUAL rows)" "p \<in> set (map PREDICTION rows)"
  shows "frequencies (map ACTUAL rows) (map PREDICTION rows) (Lab a) (Lab p) = Some (pair_count rows a p)"
    and "frequencies (map ACTUAL rows) (map PREDICTION rows) (Lab a) AllLab = Some (row_total rows a)"
    and "frequencies (map ACTUAL rows) (map PREDICTION rows) AllLab (Lab p) = Some (col_total rows p)"
    and "frequencies (map ACTUAL rows) (map PREDICTION rows) AllLab AllLab = Some (length rows)"
proof -
  have c: "length (filter (\<lambda>ap. matches r (fst ap) \<and> matches c (snd ap))
        (zip (map ACTUAL rows) (map PREDICTION rows))) =
      length (filter (\<lambda>x. matches r (ACTUAL x) \<and> matches c (PREDICTION x)) rows)" for r c
    by (rule count_zip [where Q = "\<lambda>a p. matches r a \<and> matches c p"])
  show "frequencies (map ACTUAL rows) (map PREDICTION rows) (Lab a) (Lab p) = Some (pair_count rows a p)"
    using assms unfolding frequencies_def c by (simp add: pair_count_def)
  show "frequencies (map ACTUAL rows) (map PREDICTION rows) (Lab a) AllLab = Some (row_total rows a)"
    using assms unfolding frequencies_def c by (simp add: row_total_def)
  show "frequencies (map ACTUAL rows) (map PREDICTION rows) AllLab (Lab p) = Some (col_total rows p)"
    using assms unfolding frequencies_def c by (simp add: col_total_def)
  show "frequencies (map ACTUAL rows) (map PREDICTION rows) AllLab AllLab = Some (length rows)"
    unfolding frequencies_def c by simp
qed

lemma crosstab_rows:
  "rows \<noteq> [] \<Longrightarrow>
     crosstab (map ACTUAL rows) (map PREDICTION rows) =
       Inr (frequencies (map ACTUAL rows) (map PREDICTION rows))"
  by (cases rows) (simp_all add: crosstab_def)

lemma total_pos:
  "a \<in> set (map ACTUAL rows) \<Longrightarrow> 0 < row_total rows a"
  "p \<in> set (map PREDICTION rows) \<Longrightarrow> 0 < col_total rows p"
  by (auto simp: row_total_def col_total_def filter_empty_conv)

lemma percent_accuracy: "0 < d \<Longrightarrow> percent n d = Fin (accuracy n d)"
  by (simp add: percent_def accuracy_def)

lemma two_actual_values:
  assumes "binary_table rows" "both_classes rows"
  shows "length (remdups (map ACTUAL rows)) = 2"
proof -
  have "set (map ACTUAL rows) = {0, 1}"
    using assms by (auto simp: binary_table_def both_classes_def)
  then have "card (set (map ACTUAL rows)) = 2" by simp
  then show ?thesis by (simp only: length_remdups_card_conv)
qed

lemma f1_score_returns:
  assumes "binary_table rows"
  shows "\<exists>v. f1_score (map ACTUAL rows) (map PREDICTION rows) = Inr v"
proof -
  let ?L = "set (map ACTUAL rows @ map PREDICTION rows)"
  have sub: "?L \<subseteq> {0, 1}"
    using assms by (auto simp: binary_table_def)
  have "card ?L \<le> card {0, 1::int}"
    by (rule card_mono [OF _ sub]) simp
  then have le: "card ?L \<le> 2" by simp
  have one: "1 \<in> ?L" if "card ?L = 2"
  proof (rule ccontr)
    assume "1 \<notin> ?L"
    with sub have "?L \<subseteq> {0}" by auto
    then have "card ?L \<le> card {0::int}"
      by (intro card_mono) simp_all
    with that show False by simp
  qed
  have "\<not> (2 < length (remdups (map ACTUAL rows @ map PREDICTION rows))
      \<or> (length (remdups (map ACTUAL rows @ map PREDICTION rows)) = 2
          \<and> 1 \<notin> set (remdups (map ACTUAL rows @ map PREDICTION rows))))"
    using le one by (auto simp: length_remdups_card_conv)
  then show ?thesis
    unfolding f1_score_def Let_def by (simp only: if_False) blast
qed

lemma binary_season: "binary_table rows \<Longrightarrow> binary_table (season_rows rows months)"
  by (simp add: binary_table_def season_rows_def)

text \<open>
  Claim C5, as the code has it. For a table of values 0 and 1 whose season rows hold each
  of the classes 0 and 1 among the ACTUAL values and among the PREDICTION values, the
  assessment returns a report whose producer's accuracy of class c is
  matrix[c][c] / rowTotal[c] * 100, whose user's accuracy of class c is
  matrix[c][c] / colTotal[c] * 100 and whose overall accuracy is
  (matrix[0][0] + matrix[1][1]) / grandTotal * 100. On the scenario of the specification
  these are 92, 52/55*100 and 52/57*100. The condition on the season is needed: for the
  season of one row with the pair (0, 0) the crosstab has neither a row nor a column for
  the class 1, and the assessment ends in \<open>KeyError\<close> (\<open>missing_class_key_error\<close>).
\<close>

theorem accuracy_formulas:
  assumes "binary_table input_data" "both_classes (season_rows input_data WetMonth)"
  shows "\<exists>r. accuracy_assessment input_data WetMonth = Inr r
    \<and> producers0 r = Fin (accuracy (pair_count (season_rows input_data WetMonth) 0 0)
                                    (row_total (season_rows input_data WetMonth) 0))
    \<and> producers1 r = Fin (accuracy (pair_count (season_rows input_data WetMonth) 1 1)
                                    (row_total (season_rows input_data WetMonth) 1))
    \<and> users0 r = Fin (accuracy (pair_count (season_rows input_data WetMonth) 0 0)
                                (col_total (season_rows input_data WetMonth) 0))
    \<and> users1 r = Fin (accuracy (pair_count (season_rows input_data WetMonth) 1 1)
                                (col_total (season_rows input_data WetMonth) 1))
    \<and> overall r = Fin (accuracy (pair_count (season_rows input_data WetMonth) 0 0
                                   + pair_count (season_rows input_data WetMonth) 1 1)
                                 (length (season_rows input_data WetMonth)))"
proof -
  let ?rows = "season_rows input_data WetMonth"
  have l: "0 \<in> set (map ACTUAL ?rows)" "1 \<in> set (map ACTUAL ?rows)"
      "0 \<in> set (map PREDICTION ?rows)" "1 \<in> set (map PREDICTION ?rows)"
    using assms(2) by (simp_all add: both_classes_def)
  have two: "length (remdups (map ACTUAL ?rows)) = 2"
    by (rule two_actual_values [OF binary_season [OF assms(1)] assms(2)])
  from f1_score_returns [OF assms(1)] obtain v where
    f1: "f1_score (map ACTUAL input_data) (map PREDICTION input_data) = Inr v" ..
  have ne: "0 < length ?rows"
    using l(1) by (cases ?rows) simp_all
  then have tab: "crosstab (map ACTUAL ?rows) (map PREDICTION ?rows) =
      Inr (frequencies (map ACTUAL ?rows) (map PREDICTION ?rows))"
    by (intro crosstab_rows) auto
  note cells = frequencies_cell [OF l(1) l(3)] frequencies_cell(1-3) [OF l(2) l(4)]
  have pos: "0 < row_total ?rows 0" "0 < row_total ?rows 1" "0 < col_total ?rows 0"
      "0 < col_total ?rows 1"
    using l by (simp_all add: total_pos)
  have ov: "percent n (length ?rows) = Fin (accuracy n (length ?rows))" for n
    by (rule percent_accuracy [OF ne])
  show ?thesis
    unfolding accuracy_assessment_def Let_def season_rows_def [symmetric]
    by (simp add: tab loc_def col_def cells percent_accuracy pos ov two f1)
qed

theorem accuracy_formulas_witness:
  "\<exists>r. accuracy_assessment scenario_table [5, 6, 7, 8, 9, 10] = Inr r
     \<and> overall r = Fin 92 \<and> producers1 r = Fin (52 / 55 * 100) \<and> users1 r = Fin (52 / 57 * 100)"
proof -
  have s: "season_rows scenario_table [5, 6, 7, 8, 9, 10] = scenario_table"
    by (simp add: season_rows_def scenario_table_def obs_rows_def)
  have b: "both_classes (season_rows scenario_table [5, 6, 7, 8, 9, 10])"
    unfolding s by (simp add: both_classes_def scenario_table_def obs_rows_def)
  have t: "binary_table scenario_table"
    by (auto simp: binary_table_def scenario_table_def obs_rows_def)
  have c: "pair_count scenario_table 0 0 = 40" "pair_count scenario_table 1 1 = 52"
    "row_total scenario_table 1 = 55" "col_total scenario_table 1 = 57"
    "length scenario_table = 100"
    by (simp_all add: pair_count_def row_total_def col_total_def scenario_table_def obs_rows_def)
  from accuracy_formulas [OF t b] show ?thesis
    unfolding s c by (auto simp: accuracy_def)
qed

theorem missing_class_key_error:
  "accuracy_assessment (obs_rows 6 0 0 1) [5, 6, 7, 8, 9, 10] = Inl (KeyError ''1'')"
  by (simp add: accuracy_assessment_def obs_rows_def crosstab_def frequencies_def loc_def
      col_def str_int_def str_nat.simps)

text \<open>
  Claim C6. The second F-score of the report is \<open>f1_score\<close> of the columns of
  \<open>input_data\<close>, the table of all months, and not of \<open>Wet_Season\<close>, from which the
  confusion matrix and the first F-score of the same report are computed. On the table
  below, which has one row outside the season, the report holds 2/3, while the rows of
  the season alone give 1.
\<close>

theorem fscore_from_all_rows:
  "(case accuracy_assessment mixed_table [5, 6, 7, 8, 9, 10] of
      Inl e \<Rightarrow> None | Inr r \<Rightarrow> Some (fscore1 r)) = Some (Fin (2 / 3))
   \<and> f1_score (map ACTUAL (season_rows mixed_table [5, 6, 7, 8, 9, 10]))
        (map PREDICTION (season_rows mixed_table [5, 6, 7, 8, 9, 10])) = Inr (Fin 1)"
  by (simp add: accuracy_assessment_def mixed_table_def obs_rows_def crosstab_def
      frequencies_def loc_def col_def f1_score_def season_rows_def percent_def Let_def)

end
